theory Spec2Isabelle
  imports Main
begin


section \<open>Data model\<close>

text \<open>
  \<^verbatim>\<open>src/shared/models.ts\<close>, \<^verbatim>\<open>LLMService\<close> (together with the
  \<^verbatim>\<open>"moonshot"\<close> service that \<^verbatim>\<open>key-pool.ts\<close> registers). A model
  family is a string at run time (families of AWS and Azure are built by string
  concatenation), so it stays a string here.
\<close>

datatype LLMService =
    svc_openai | svc_anthropic | svc_google_ai | svc_mistral_ai | svc_aws | svc_gcp
  | svc_azure | svc_deepseek | svc_xai | svc_cohere | svc_qwen | svc_moonshot

type_synonym ModelFamily = string

text \<open>
  The key record, as \<^verbatim>\<open>MoonshotKeyProvider\<close>'s constructor builds it
  (\<^verbatim>\<open>moonshot/provider.ts\<close>, lines 29-43). Timestamps are milliseconds
  (\<^verbatim>\<open>Date.now()\<close>). The last two fields are the extensions that the response
  handlers write on Anthropic and Google AI keys; a key without them holds \<open>None\<close>.
\<close>

record TokenUsage =
  usage_input :: int
  usage_output :: int

record Key =
  key :: string
  service :: LLMService
  modelFamilies :: "ModelFamily list"
  isDisabled :: bool
  isRevoked :: bool
  promptCount :: int
  lastUsed :: int
  lastChecked :: int
  hash :: string
  rateLimitedAt :: int
  rateLimitedUntil :: int
  tokenUsage :: "(ModelFamily \<times> TokenUsage) list"
  isOverQuota :: bool
  requiresPreamble :: "bool option"
  overQuotaFamilies :: "ModelFamily list option"

text \<open>
  \<^verbatim>\<open>Partial<Key>\<close>: every property of the key may be present or not.
\<close>

record KeyPatch =
  set_key :: "string option"
  set_service :: "LLMService option"
  set_modelFamilies :: "ModelFamily list option"
  set_isDisabled :: "bool option"
  set_isRevoked :: "bool option"
  set_promptCount :: "int option"
  set_lastUsed :: "int option"
  set_lastChecked :: "int option"
  set_hash :: "string option"
  set_rateLimitedAt :: "int option"
  set_rateLimitedUntil :: "int option"
  set_tokenUsage :: "(ModelFamily \<times> TokenUsage) list option"
  set_isOverQuota :: "bool option"
  set_requiresPreamble :: "bool option"
  set_overQuotaFamilies :: "ModelFamily list option"

definition no_patch :: KeyPatch where
  "no_patch = \<lparr> set_key = None, set_service = None, set_modelFamilies = None,
     set_isDisabled = None, set_isRevoked = None, set_promptCount = None,
     set_lastUsed = None, set_lastChecked = None, set_hash = None,
     set_rateLimitedAt = None, set_rateLimitedUntil = None, set_tokenUsage = None,
     set_isOverQuota = None, set_requiresPreamble = None, set_overQuotaFamilies = None \<rparr>"

text \<open>
  What the modelled functions throw: the \<^verbatim>\<open>Error\<close> of \<^verbatim>\<open>get\<close> without keys,
  the \<^verbatim>\<open>TypeError\<close> of a property access on \<^verbatim>\<open>undefined\<close>, the
  \<^verbatim>\<open>RetryableError\<close> of the response handlers with its message, the two
  \<^verbatim>\<open>ZodError\<close>s of the context validation (the second with the limit, the
  prompt tokens and the output tokens of its message), and an error of a function that
  is passed in.
\<close>

datatype error =
    NoKeysAvailable
  | TypeError
  | RetryableError string
  | ZodTokenCounts
  | ContextTooLarge int int int
  | OtherError string

section \<open>The Moonshot key provider\<close>

text \<open>
  \<^verbatim>\<open>Object.assign(key, update)\<close>: a property of the patch overwrites the key's
  (\<open>or_else_opt\<close> for the two properties that a key may lack).
\<close>

definition or_else :: "'a option \<Rightarrow> 'a \<Rightarrow> 'a" where
  "or_else v d = (case v of None \<Rightarrow> d | Some x \<Rightarrow> x)"

definition or_else_opt :: "'a option \<Rightarrow> 'a option \<Rightarrow> 'a option" where
  "or_else_opt v d = (case v of None \<Rightarrow> d | Some x \<Rightarrow> Some x)"

definition Object_assign :: "Key \<Rightarrow> KeyPatch \<Rightarrow> Key" where
  "Object_assign k p =
     \<lparr> key = or_else (set_key p) (key k),
       service = or_else (set_service p) (service k),
       modelFamilies = or_else (set_modelFamilies p) (modelFamilies k),
       isDisabled = or_else (set_isDisabled p) (isDisabled k),
       isRevoked = or_else (set_isRevoked p) (isRevoked k),
       promptCount = or_else (set_promptCount p) (promptCount k),
       lastUsed = or_else (set_lastUsed p) (lastUsed k),
       lastChecked = or_else (set_lastChecked p) (lastChecked k),
       hash = or_else (set_hash p) (hash k),
       rateLimitedAt = or_else (set_rateLimitedAt p) (rateLimitedAt k),
       rateLimitedUntil = or_else (set_rateLimitedUntil p) (rateLimitedUntil k),
       tokenUsage = or_else (set_tokenUsage p) (tokenUsage k),
       isOverQuota = or_else (set_isOverQuota p) (isOverQuota k),
       requiresPreamble = or_else_opt (set_requiresPreamble p) (requiresPreamble k),
       overQuotaFamilies = or_else_opt (set_overQuotaFamilies p) (overQuotaFamilies k) \<rparr>"

text \<open>
  \<^verbatim>\<open>this.keys.find((k) => k.hash === h)\<close> gives the first key with that hash;
  \<open>find_index\<close> is its position in \<^verbatim>\<open>this.keys\<close>, the object that the
  callers then mutate in place.
\<close>

fun find_index :: "string \<Rightarrow> Key list \<Rightarrow> nat option" where
  "find_index h [] = None"
| "find_index h (k # ks) =
     (if hash k = h then Some 0 else map_option Suc (find_index h ks))"

text \<open>\<^verbatim>\<open>update(hash, update)\<close>, lines 87-92: an unknown hash changes nothing.\<close>

definition update :: "string \<Rightarrow> KeyPatch \<Rightarrow> Key list \<Rightarrow> Key list" where
  "update h p ks =
     (case find_index h ks of
        None \<Rightarrow> ks
      | Some i \<Rightarrow> ks[i := Object_assign (ks ! i) p])"

text \<open>\<^verbatim>\<open>disable(key)\<close>, lines 80-85.\<close>

definition disable :: "Key \<Rightarrow> Key list \<Rightarrow> Key list" where
  "disable k ks =
     (case find_index (hash k) ks of
        None \<Rightarrow> ks
      | Some i \<Rightarrow> ks[i := (ks ! i)\<lparr>isDisabled := True\<rparr>])"

text \<open>\<^verbatim>\<open>available()\<close>, lines 94-96.\<close>

definition available :: "Key list \<Rightarrow> nat" where
  "available ks = length (filter (\<lambda>k. \<not> isDisabled k) ks)"

definition RATE_LIMIT_LOCKOUT :: int where
  "RATE_LIMIT_LOCKOUT = 2000"

definition KEY_REUSE_DELAY :: int where
  "KEY_REUSE_DELAY = 500"

text \<open>
  \<^verbatim>\<open>markRateLimited(keyHash)\<close>, lines 131-137. The \<^verbatim>\<open>find(...)!\<close> of an
  unknown hash is \<^verbatim>\<open>undefined\<close>, and the assignment to its property throws.
\<close>

definition markRateLimited :: "int \<Rightarrow> string \<Rightarrow> Key list \<Rightarrow> error + Key list" where
  "markRateLimited now h ks =
     (case find_index h ks of
        None \<Rightarrow> Inl TypeError
      | Some i \<Rightarrow>
          Inr (ks[i := (ks ! i)\<lparr>rateLimitedAt := now,
                                rateLimitedUntil := now + RATE_LIMIT_LOCKOUT\<rparr>]))"

text \<open>\<^verbatim>\<open>throttle(hash)\<close>, lines 156-165.\<close>

definition throttle :: "int \<Rightarrow> string \<Rightarrow> Key list \<Rightarrow> error + Key list" where
  "throttle now h ks =
     (case find_index h ks of
        None \<Rightarrow> Inl TypeError
      | Some i \<Rightarrow>
          (let currentRateLimit = rateLimitedUntil (ks ! i);
               nextRateLimit = now + KEY_REUSE_DELAY
           in Inr (ks[i := (ks ! i)\<lparr>rateLimitedAt := now,
                                     rateLimitedUntil := max currentRateLimit nextRateLimit\<rparr>])))"

text \<open>
  \<^verbatim>\<open>get(model)\<close>, lines 65-74. \<open>availableKeys\<close> holds the positions in
  \<^verbatim>\<open>this.keys\<close> of the keys that pass the filter, so that the writes reach the
  pool's own objects. \<open>pick\<close> is the value of
  \<^verbatim>\<open>Math.floor(Math.random() * availableKeys.length)\<close>, which lies below the
  length; \<open>t_used\<close> and \<open>t_throttle\<close> are the two readings of \<^verbatim>\<open>Date.now()\<close>.
  The result is the copy \<^verbatim>\<open>{ ...key }\<close> and the pool after the writes.
\<close>

definition availableKeys :: "Key list \<Rightarrow> nat list" where
  "availableKeys ks = filter (\<lambda>i. \<not> isDisabled (ks ! i)) [0 ..< length ks]"

definition get :: "nat \<Rightarrow> int \<Rightarrow> int \<Rightarrow> string \<Rightarrow> Key list \<Rightarrow> error + (Key \<times> Key list)" where
  "get pick t_used t_throttle model ks =
     (let avail = availableKeys ks in
      if length avail = 0 then Inl NoKeysAvailable
      else if length avail \<le> pick then Inl TypeError
      else
        (let i = avail ! pick;
             ks1 = ks[i := (ks ! i)\<lparr>lastUsed := t_used\<rparr>]
         in case throttle t_throttle (hash (ks1 ! i)) ks1 of
              Inl e \<Rightarrow> Inl e
            | Inr ks2 \<Rightarrow> Inr (ks2 ! i, ks2)))"

text \<open>
  \<^verbatim>\<open>recheck()\<close>, lines 139-149. \<open>has_checker\<close> is \<^verbatim>\<open>this.checker\<close> being set and
  \<open>checkKeys\<close> is \<^verbatim>\<open>config.checkKeys\<close>. The check that
  \<^verbatim>\<open>checker.checkKey\<close> starts is asynchronous: it reports later, through
  \<^verbatim>\<open>update\<close>. The loop runs over \<^verbatim>\<open>this.keys\<close> and updates by hash.
\<close>

definition recheck_patch :: KeyPatch where
  "recheck_patch = no_patch\<lparr> set_isOverQuota := Some False, set_isDisabled := Some False,
                              set_lastChecked := Some 0 \<rparr>"

definition recheck :: "bool \<Rightarrow> bool \<Rightarrow> Key list \<Rightarrow> Key list" where
  "recheck has_checker checkKeys ks =
     (if \<not> has_checker \<or> \<not> checkKeys then ks
      else foldl (\<lambda>acc i. update (hash (acc ! i)) recheck_patch acc) ks [0 ..< length ks])"

text \<open>
  The constructor's key object, lines 29-43, for one configured secret; \<open>h\<close> is
  \<^verbatim>\<open>hashKey(key)\<close>, its SHA-256 digest. The constructor keeps a secret that is
  listed twice as two keys of the same hash.
\<close>

definition new_key :: "string \<Rightarrow> string \<Rightarrow> Key" where
  "new_key secret h =
     \<lparr> key = secret, service = svc_moonshot, modelFamilies = [''moonshot''],
       isDisabled = False, isRevoked = False, promptCount = 0, lastUsed = 0,
       lastChecked = 0, hash = h, rateLimitedAt = 0, rateLimitedUntil = 0,
       tokenUsage = [], isOverQuota = False, requiresPreamble = None,
       overQuotaFamilies = None \<rparr>"

section \<open>The key pool\<close>

text \<open>
  \<^verbatim>\<open>key-pool.ts\<close>: the pool is the list of its providers, each with the keys of
  one service.
\<close>

record KeyProvider =
  provider_service :: LLMService
  keys :: "Key list"

type_synonym KeyPool = "KeyProvider list"

text \<open>
  \<^verbatim>\<open>getKeyProvider(service)\<close>, lines 229-231, as the position of the first
  provider of that service. The callers use the result unchecked
  (\<^verbatim>\<open>find(...)!\<close>), so a missing provider makes their method call throw.
\<close>

fun getKeyProvider :: "LLMService \<Rightarrow> KeyPool \<Rightarrow> nat option" where
  "getKeyProvider s [] = None"
| "getKeyProvider s (p # ps) =
     (if provider_service p = s then Some 0 else map_option Suc (getKeyProvider s ps))"

definition on_provider ::
  "LLMService \<Rightarrow> (Key list \<Rightarrow> error + Key list) \<Rightarrow> KeyPool \<Rightarrow> error + KeyPool" where
  "on_provider s f pool =
     (case getKeyProvider s pool of
        None \<Rightarrow> Inl TypeError
      | Some i \<Rightarrow>
          (case f (keys (pool ! i)) of
             Inl e \<Rightarrow> Inl e
           | Inr ks \<Rightarrow> Inr (pool[i := (pool ! i)\<lparr>keys := ks\<rparr>])))"

text \<open>
  Modelled from the spec: the provider classes of the services other than Moonshot are
  not among the sources, so their \<^verbatim>\<open>update\<close>, \<^verbatim>\<open>disable\<close> and
  \<^verbatim>\<open>markRateLimited\<close> follow the spec's contract of the key pool: "update(hash,
  patch): field-wise merge; ignored if hash unknown", "isDisabled: true once the
  credential is removed from rotation", and "markRateLimited(key): sets rateLimitedAt :=
  now, rateLimitedUntil := now + RATE_LIMIT_LOCKOUT (default 2000 ms)". The Moonshot
  provider runs its own code above.
\<close>

definition provider_update ::
  "LLMService \<Rightarrow> string \<Rightarrow> KeyPatch \<Rightarrow> Key list \<Rightarrow> Key list" where
  "provider_update s h p ks =
     (if s = svc_moonshot then update h p ks
      else (case find_index h ks of
              None \<Rightarrow> ks
            | Some i \<Rightarrow> ks[i := Object_assign (ks ! i) p]))"

text \<open>
  Modelled from the spec: \<^verbatim>\<open>disable\<close> of a provider whose class is not among the
  sources (see \<open>provider_update\<close>).
\<close>

definition provider_disable :: "LLMService \<Rightarrow> Key \<Rightarrow> Key list \<Rightarrow> Key list" where
  "provider_disable s k ks =
     (if s = svc_moonshot then disable k ks
      else (case find_index (hash k) ks of
              None \<Rightarrow> ks
            | Some i \<Rightarrow> ks[i := (ks ! i)\<lparr>isDisabled := True\<rparr>]))"

text \<open>
  Modelled from the spec: \<^verbatim>\<open>markRateLimited\<close> of a provider whose class is not
  among the sources (see \<open>provider_update\<close>); a hash the provider does not know
  leaves its keys as they are.
\<close>

definition provider_markRateLimited ::
  "LLMService \<Rightarrow> int \<Rightarrow> string \<Rightarrow> Key list \<Rightarrow> error + Key list" where
  "provider_markRateLimited s now h ks =
     (if s = svc_moonshot then markRateLimited now h ks
      else (case find_index h ks of
              None \<Rightarrow> Inr ks
            | Some i \<Rightarrow>
                Inr (ks[i := (ks ! i)\<lparr>rateLimitedAt := now,
                                      rateLimitedUntil := now + RATE_LIMIT_LOCKOUT\<rparr>])))"

datatype DisableReason = quota | revoked

text \<open>
  \<^verbatim>\<open>KeyPool.disable(key, reason)\<close>, lines 76-91. The second update runs for the
  providers of the \<^verbatim>\<open>instanceof\<close> list only.
\<close>

definition has_isOverQuota_update :: "LLMService \<Rightarrow> bool" where
  "has_isOverQuota_update s =
     (s = svc_openai \<or> s = svc_anthropic \<or> s = svc_deepseek \<or> s = svc_xai \<or>
      s = svc_cohere \<or> s = svc_qwen \<or> s = svc_moonshot)"

definition KeyPool_disable :: "Key \<Rightarrow> DisableReason \<Rightarrow> KeyPool \<Rightarrow> error + KeyPool" where
  "KeyPool_disable k reason pool =
     on_provider (service k)
       (\<lambda>ks.
          let ks1 = provider_disable (service k) k ks;
              ks2 = provider_update (service k) (hash k)
                      (no_patch\<lparr>set_isRevoked := Some (reason = revoked)\<rparr>) ks1
          in if has_isOverQuota_update (service k)
             then Inr (provider_update (service k) (hash k)
                         (no_patch\<lparr>set_isOverQuota := Some (reason = quota)\<rparr>) ks2)
             else Inr ks2)
       pool"

text \<open>\<^verbatim>\<open>KeyPool.update(key, props)\<close>, lines 101-104.\<close>

definition KeyPool_update :: "Key \<Rightarrow> KeyPatch \<Rightarrow> KeyPool \<Rightarrow> error + KeyPool" where
  "KeyPool_update k props pool =
     on_provider (service k) (\<lambda>ks. Inr (provider_update (service k) (hash k) props ks)) pool"

text \<open>\<^verbatim>\<open>KeyPool.markRateLimited(key)\<close>, lines 145-148.\<close>

definition KeyPool_markRateLimited :: "int \<Rightarrow> Key \<Rightarrow> KeyPool \<Rightarrow> error + KeyPool" where
  "KeyPool_markRateLimited now k pool =
     on_provider (service k) (provider_markRateLimited (service k) now (hash k)) pool"

text \<open>
  \<^verbatim>\<open>KeyPool.recheck(service)\<close>, lines 157-165, for the Moonshot provider, whose
  \<^verbatim>\<open>recheck\<close> is among the sources.
\<close>

definition KeyPool_recheck_moonshot :: "bool \<Rightarrow> bool \<Rightarrow> KeyPool \<Rightarrow> error + KeyPool" where
  "KeyPool_recheck_moonshot has_checker checkKeys pool =
     (if \<not> checkKeys then Inr pool
      else on_provider svc_moonshot (\<lambda>ks. Inr (recheck has_checker checkKeys ks)) pool)"

section \<open>Strings and regular expressions\<close>

text \<open>
  The string methods of JavaScript that the sources call. A string is a list of
  characters; the model names and error messages in question are ASCII.
\<close>

fun startsWith :: "string \<Rightarrow> string \<Rightarrow> bool" where
  "startsWith s [] = True"
| "startsWith [] (p # ps) = False"
| "startsWith (c # cs) (p # ps) = (c = p \<and> startsWith cs ps)"

fun includes_str :: "string \<Rightarrow> string \<Rightarrow> bool" where
  "includes_str [] p = (p = [])"
| "includes_str (c # cs) p = (startsWith (c # cs) p \<or> includes_str cs p)"

text \<open>\<^verbatim>\<open>s.replace(pat, rep)\<close> with a string pattern: the first occurrence only.\<close>

fun replace_first :: "string \<Rightarrow> string \<Rightarrow> string \<Rightarrow> string" where
  "replace_first pat rep [] = (if pat = [] then rep else [])"
| "replace_first pat rep (c # cs) =
     (if startsWith (c # cs) pat then rep @ drop (length pat) (c # cs)
      else c # replace_first pat rep cs)"

definition is_digit :: "char \<Rightarrow> bool" where
  "is_digit c = (c \<in> set ''0123456789'')"

definition is_upper :: "char \<Rightarrow> bool" where
  "is_upper c = (c \<in> set ''ABCDEFGHIJKLMNOPQRSTUVWXYZ'')"

definition is_lower :: "char \<Rightarrow> bool" where
  "is_lower c = (c \<in> set ''abcdefghijklmnopqrstuvwxyz'')"

text \<open>\<^verbatim>\<open>\w\<close>: a letter, a digit or the underscore.\<close>

definition is_word :: "char \<Rightarrow> bool" where
  "is_word c = (is_lower c \<or> is_upper c \<or> is_digit c \<or> c = CHR ''_'')"

text \<open>The line terminators among the characters, which \<^verbatim>\<open>.\<close> does not match.\<close>

definition is_line_terminator :: "char \<Rightarrow> bool" where
  "is_line_terminator c = (c = CHR 0x0A \<or> c = CHR 0x0D)"

text \<open>
  \<^verbatim>\<open>toLowerCase()\<close> on ASCII, which is also the case folding of a regular
  expression with the \<^verbatim>\<open>i\<close> flag.
\<close>

definition to_lower :: "char \<Rightarrow> char" where
  "to_lower c =
     (case map_of (zip ''ABCDEFGHIJKLMNOPQRSTUVWXYZ'' ''abcdefghijklmnopqrstuvwxyz'') c of
        None \<Rightarrow> c
      | Some l \<Rightarrow> l)"

definition toLowerCase :: "string \<Rightarrow> string" where
  "toLowerCase s = map to_lower s"

text \<open>
  The regular expressions of the sources use literals, \<^verbatim>\<open>.\<close>, \<^verbatim>\<open>\d\<close>,
  \<^verbatim>\<open>\w\<close>, groups, alternatives, \<^verbatim>\<open>?\<close>, \<^verbatim>\<open>*\<close>, \<^verbatim>\<open>+\<close>,
  \<^verbatim>\<open>{n}\<close> and the anchors. \<open>LitI\<close> is a literal under the \<^verbatim>\<open>i\<close> flag,
  \<open>Eol\<close> is \<^verbatim>\<open>$\<close>; the anchor \<^verbatim>\<open>^\<close> only ever opens a pattern and is the
  flag of \<open>regex\<close>.
\<close>

datatype rx =
    Lit char
  | LitI char
  | Dot
  | Digit
  | WordCh
  | Eol
  | Eps
  | Seq rx rx
  | Alt rx rx
  | Opt rx
  | Star rx
  | Times nat rx

text \<open>
  Whether the pattern matches at the start of \<open>s\<close> with a rest that \<open>k\<close> accepts. An
  iteration of \<open>Star\<close> that consumes nothing adds no match, so the length of the input
  bounds the iterations.
\<close>

primrec star_iter ::
  "nat \<Rightarrow> ((string \<Rightarrow> bool) \<Rightarrow> string \<Rightarrow> bool) \<Rightarrow> (string \<Rightarrow> bool) \<Rightarrow> string \<Rightarrow> bool" where
  "star_iter 0 f k s = k s"
| "star_iter (Suc n) f k s =
     (k s \<or> f (\<lambda>s'. length s' < length s \<and> star_iter n f k s') s)"

primrec rx_match :: "rx \<Rightarrow> (string \<Rightarrow> bool) \<Rightarrow> string \<Rightarrow> bool" where
  "rx_match (Lit c) k s = (case s of [] \<Rightarrow> False | x # xs \<Rightarrow> x = c \<and> k xs)"
| "rx_match (LitI c) k s =
     (case s of [] \<Rightarrow> False | x # xs \<Rightarrow> to_lower x = to_lower c \<and> k xs)"
| "rx_match Dot k s = (case s of [] \<Rightarrow> False | x # xs \<Rightarrow> \<not> is_line_terminator x \<and> k xs)"
| "rx_match Digit k s = (case s of [] \<Rightarrow> False | x # xs \<Rightarrow> is_digit x \<and> k xs)"
| "rx_match WordCh k s = (case s of [] \<Rightarrow> False | x # xs \<Rightarrow> is_word x \<and> k xs)"
| "rx_match Eol k s = (s = [] \<and> k s)"
| "rx_match Eps k s = k s"
| "rx_match (Seq a b) k s = rx_match a (rx_match b k) s"
| "rx_match (Alt a b) k s = (rx_match a k s \<or> rx_match b k s)"
| "rx_match (Opt a) k s = (rx_match a k s \<or> k s)"
| "rx_match (Star a) k s = star_iter (length s) (rx_match a) k s"
| "rx_match (Times n a) k s = ((rx_match a ^^ n) k) s"

primrec str :: "string \<Rightarrow> rx" where
  "str [] = Eps"
| "str (c # cs) = Seq (Lit c) (str cs)"

primrec str_i :: "string \<Rightarrow> rx" where
  "str_i [] = Eps"
| "str_i (c # cs) = Seq (LitI c) (str_i cs)"

primrec seqs :: "rx list \<Rightarrow> rx" where
  "seqs [] = Eps"
| "seqs (r # rs) = Seq r (seqs rs)"

fun tails :: "string \<Rightarrow> string list" where
  "tails [] = [[]]"
| "tails (c # cs) = (c # cs) # tails cs"

text \<open>
  A pattern with its \<^verbatim>\<open>^\<close> flag. \<^verbatim>\<open>s.match(re)\<close> and \<^verbatim>\<open>re.test(s)\<close> are
  truthy when the pattern matches at some position, at the first one only under
  \<^verbatim>\<open>^\<close>.
\<close>

type_synonym regex = "bool \<times> rx"

definition rx_test :: "regex \<Rightarrow> string \<Rightarrow> bool" where
  "rx_test re s =
     (if fst re then rx_match (snd re) (\<lambda>_. True) s
      else list_ex (rx_match (snd re) (\<lambda>_. True)) (tails s))"

text \<open>\<^verbatim>\<open>(-\d{4}-\d{2}-\d{2})\<close>, the date suffix of many model names.\<close>

definition date_suffix :: rx where
  "date_suffix =
     seqs [Lit CHR ''-'', Times 4 Digit, Lit CHR ''-'', Times 2 Digit, Lit CHR ''-'', Times 2 Digit]"


section \<open>Model families (\<^verbatim>\<open>src/shared/models.ts\<close>)\<close>

text \<open>
  \<^verbatim>\<open>OPENAI_MODEL_FAMILY_MAP\<close>, lines 221-249, in the order of its keys, which is the
  order \<^verbatim>\<open>Object.entries\<close> gives. The last key is written with single backslashes
  inside a string, so its \<^verbatim>\<open>\d\<close> is the letter \<^verbatim>\<open>d\<close>.
\<close>

definition OPENAI_MODEL_FAMILY_MAP :: "(regex \<times> ModelFamily) list" where
  "OPENAI_MODEL_FAMILY_MAP =
   [ ((True, seqs [str ''gpt-image'', Opt (seqs [Lit CHR ''-'', Digit, Star Digit]),
                   Opt (str ''-preview''), Opt date_suffix, Eol]), ''gpt-image''),
     ((True, seqs [str ''gpt-4.5'', Opt (str ''-preview''), Opt date_suffix, Eol]), ''gpt45''),
     ((True, seqs [str ''gpt-4.1'', Opt date_suffix, Eol]), ''gpt41''),
     ((True, seqs [str ''gpt-4.1-mini'', Opt date_suffix, Eol]), ''gpt41-mini''),
     ((True, seqs [str ''gpt-4.1-nano'', Opt date_suffix, Eol]), ''gpt41-nano''),
     ((True, seqs [str ''gpt-4o'', Opt date_suffix, Eol]), ''gpt4o''),
     ((True, str ''chatgpt-4o''), ''gpt4o''),
     ((True, seqs [str ''gpt-4o-mini'', Opt date_suffix, Eol]), ''turbo''),
     ((True, seqs [str ''gpt-4-turbo'', Opt date_suffix, Eol]), ''gpt4-turbo''),
     ((True, seqs [str ''gpt-4-turbo'', Opt (str ''-preview''), Eol]), ''gpt4-turbo''),
     ((True, seqs [str ''gpt-4-'', Alt (str ''0125'') (str ''1106''), Opt (str ''-preview''), Eol]),
        ''gpt4-turbo''),
     ((True, seqs [str ''gpt-4'', Opt (Seq (Lit CHR ''-'') (Times 4 Digit)), str ''-vision'',
                   Opt (str ''-preview''), Eol]), ''gpt4-turbo''),
     ((True, seqs [str ''gpt-4-32k-'', Times 4 Digit, Eol]), ''gpt4-32k''),
     ((True, seqs [str ''gpt-4-32k'', Eol]), ''gpt4-32k''),
     ((True, seqs [str ''gpt-4-'', Times 4 Digit, Eol]), ''gpt4''),
     ((True, seqs [str ''gpt-4'', Eol]), ''gpt4''),
     ((True, seqs [str ''gpt-3'', Dot, str ''5-turbo'']), ''turbo''),
     ((True, seqs [str ''text-embedding-ada-002'', Eol]), ''turbo''),
     ((True, seqs [str ''dall-e-'', Times 1 Digit, Eol]), ''dall-e''),
     ((True, seqs [str ''o1-mini'', Opt date_suffix, Eol]), ''o1-mini''),
     ((True, seqs [str ''o1-pro'', Opt date_suffix, Eol]), ''o1-pro''),
     ((True, seqs [str ''o3-pro'', Opt date_suffix, Eol]), ''o3-pro''),
     ((True, seqs [str ''o1'', Opt date_suffix, Eol]), ''o1''),
     ((True, seqs [str ''o3-mini'', Opt date_suffix, Eol]), ''o3-mini''),
     ((True, seqs [str ''o3'', Opt date_suffix, Eol]), ''o3''),
     ((True, seqs [str ''o4-mini'', Opt date_suffix, Eol]), ''o4-mini''),
     ((True, seqs [str ''codex-mini'',
                   Opt (Alt (str ''-latest'')
                            (seqs [str ''-'', Times 4 (Lit CHR ''d''), str ''-'',
                                   Times 2 (Lit CHR ''d''), str ''-'', Times 2 (Lit CHR ''d'')])),
                   Eol]), ''codex-mini'') ]"

text \<open>The loop of \<^verbatim>\<open>getOpenAIModelFamily\<close>: the family of the first pattern that matches.\<close>

fun first_match :: "(regex \<times> 'a) list \<Rightarrow> string \<Rightarrow> 'a option" where
  "first_match [] s = None"
| "first_match ((re, v) # rest) s = (if rx_test re s then Some v else first_match rest s)"

text \<open>\<^verbatim>\<open>getOpenAIModelFamily(model, defaultFamily = "gpt4")\<close>, lines 251-259.\<close>

definition getOpenAIModelFamily_default :: "string \<Rightarrow> ModelFamily \<Rightarrow> ModelFamily" where
  "getOpenAIModelFamily_default model defaultFamily =
     (case first_match OPENAI_MODEL_FAMILY_MAP model of
        Some family \<Rightarrow> family
      | None \<Rightarrow> defaultFamily)"

definition getOpenAIModelFamily :: "string \<Rightarrow> ModelFamily" where
  "getOpenAIModelFamily model = getOpenAIModelFamily_default model ''gpt4''"

text \<open>\<^verbatim>\<open>getClaudeModelFamily\<close>, lines 261-264.\<close>

definition getClaudeModelFamily :: "string \<Rightarrow> ModelFamily" where
  "getClaudeModelFamily model =
     (if includes_str model ''opus'' then ''claude-opus'' else ''claude'')"

text \<open>\<^verbatim>\<open>getGoogleAIModelFamily\<close>, lines 266-273.\<close>

definition getGoogleAIModelFamily :: "string \<Rightarrow> ModelFamily" where
  "getGoogleAIModelFamily model =
     (if includes_str model ''ultra'' \<and> \<not> includes_str model ''imagen'' then ''gemini-ultra''
      else if includes_str model ''flash'' then ''gemini-flash''
      else ''gemini-pro'')"

text \<open>
  \<^verbatim>\<open>getMistralAIModelFamily\<close>, lines 275-331. The pattern of the
  \<^verbatim>\<open>replace\<close> ends with \<^verbatim>\<open>$\<close>, so its first match runs from the leftmost position
  where the rest of the name matches to the end, and is removed.
\<close>

definition mistral_suffix :: rx where
  "mistral_suffix =
     seqs [Lit CHR ''-'',
           Alt (str ''latest'')
               (Seq (Times 4 Digit)
                    (Opt (seqs [Lit CHR ''-'', Times 2 Digit,
                                Opt (seqs [Lit CHR ''-'', Times 2 Digit])]))),
           Eol]"

fun remove_to_end :: "rx \<Rightarrow> string \<Rightarrow> string" where
  "remove_to_end r [] = []"
| "remove_to_end r (c # cs) =
     (if rx_match r (\<lambda>_. True) (c # cs) then [] else c # remove_to_end r cs)"

definition getMistralAIModelFamily :: "string \<Rightarrow> ModelFamily" where
  "getMistralAIModelFamily model =
     (let prunedModel = remove_to_end mistral_suffix model in
      if prunedModel \<in> set [''mistral-tiny'', ''mistral-small'', ''mistral-medium'', ''mistral-large'']
        then prunedModel
      else if prunedModel \<in> set [''mistral-large'', ''pixtral-large''] then ''mistral-large''
      else if prunedModel \<in> set [''mistral-medium-2505'', ''magistral-medium-latest'']
        then ''mistral-medium''
      else if prunedModel \<in> set [''codestral'', ''ministral-8b'', ''mistral-embed'',
                                  ''pixtral-12b-2409'', ''magistral-small-latest'']
        then ''mistral-small''
      else if prunedModel = ''ministral-3b'' then ''mistral-tiny''
      else if prunedModel = ''open-mistral-7b'' then ''mistral-tiny''
      else if prunedModel \<in> set [''mistral-small'', ''pixtral'', ''pixtral-12b'', ''open-mistral-nemo'',
                                  ''open-mixtral-8x7b'', ''open-codestral-mamba'', ''mathstral'']
        then ''mistral-small''
      else if prunedModel = ''open-mixtral-8x22b'' then ''mistral-medium''
      else ''mistral-small'')"

text \<open>
  \<^verbatim>\<open>getAwsBedrockModelFamily\<close>, lines 333-344. The pattern
  \<^verbatim>\<open>/^(\w+)\.(.+?)(-v\d+)?(:\d+)*$/\<close> covers the whole name or nothing: the first
  group is the longest run of word characters, a period follows, and the lazy second
  group is the shortest non-empty run after which the rest is an optional version and
  \<^verbatim>\<open>:n\<close> suffixes. The name is replaced by the second group.
\<close>

definition aws_tail :: rx where
  "aws_tail =
     seqs [Opt (seqs [str ''-v'', Digit, Star Digit]),
           Star (seqs [Lit CHR '':'', Digit, Star Digit]),
           Eol]"

fun lazy_group :: "rx \<Rightarrow> string \<Rightarrow> string option" where
  "lazy_group r [] = None"
| "lazy_group r (c # cs) =
     (if is_line_terminator c then None
      else if rx_match r (\<lambda>_. True) cs then Some [c]
      else map_option (Cons c) (lazy_group r cs))"

definition deAwsify :: "string \<Rightarrow> string" where
  "deAwsify model =
     (case dropWhile is_word model of
        [] \<Rightarrow> model
      | c # rest \<Rightarrow>
          if c = CHR ''.'' \<and> takeWhile is_word model \<noteq> []
          then (case lazy_group aws_tail rest of None \<Rightarrow> model | Some g \<Rightarrow> g)
          else model)"

definition getAwsBedrockModelFamily :: "string \<Rightarrow> ModelFamily" where
  "getAwsBedrockModelFamily model =
     (let deAwsified = deAwsify model in
      if includes_str model ''claude'' \<or> includes_str model ''anthropic''
        then ''aws-'' @ getClaudeModelFamily deAwsified
      else if includes_str model ''tral'' then ''aws-'' @ getMistralAIModelFamily deAwsified
      else ''aws-claude'')"

text \<open>\<^verbatim>\<open>getGcpModelFamily\<close>, lines 346-349.\<close>

definition getGcpModelFamily :: "string \<Rightarrow> ModelFamily" where
  "getGcpModelFamily model =
     (if includes_str model ''opus'' then ''gcp-claude-opus'' else ''gcp-claude'')"

text \<open>\<^verbatim>\<open>getAzureOpenAIModelFamily(model, defaultFamily = "azure-gpt4")\<close>, lines 351-367.\<close>

definition getAzureOpenAIModelFamily :: "string \<Rightarrow> ModelFamily" where
  "getAzureOpenAIModelFamily model =
     (let modified = replace_first ''azure-'' ''''
                       (replace_first ''gpt-35-turbo'' ''gpt-3.5-turbo'' model)
      in case first_match OPENAI_MODEL_FAMILY_MAP modified of
           Some family \<Rightarrow> ''azure-'' @ family
         | None \<Rightarrow> ''azure-gpt4'')"

text \<open>
  \<^verbatim>\<open>APIFormat\<close>, the outbound API of a request, as the \<^verbatim>\<open>switch\<close> of
  \<^verbatim>\<open>validateContextSize\<close> and \<^verbatim>\<open>getTransformer\<close> list it.
\<close>

datatype APIFormat =
    api_openai | api_openai_text | api_openai_image | api_openai_responses
  | api_anthropic_chat | api_anthropic_text | api_google_ai | api_mistral_ai | api_mistral_text

text \<open>
  The request, with the properties that the modelled functions read or write:
  \<^verbatim>\<open>req.key\<close>, \<^verbatim>\<open>req.service\<close>, \<^verbatim>\<open>req.outboundApi\<close>,
  \<^verbatim>\<open>req.body.model\<close>, \<^verbatim>\<open>req.modelFamily\<close>, the token counts,
  \<^verbatim>\<open>req.user?.type\<close> and \<^verbatim>\<open>req.tokenizerInfo\<close>.
\<close>

record TokenizerInfo =
  prompt_tokens :: "int option"
  completion_tokens :: "int option"
  max_model_tokens :: "int option"
  max_proxy_tokens :: "int option"

record Request =
  req_key :: "Key option"
  req_service :: LLMService
  outboundApi :: APIFormat
  body_model :: "string option"
  modelFamily :: "ModelFamily option"
  promptTokens :: "int option"
  outputTokens :: "int option"
  user_type :: "string option"
  tokenizerInfo :: TokenizerInfo

text \<open>
  \<^verbatim>\<open>getModelFamilyForRequest(req)\<close>, lines 377-433: the family and the request
  with the family stored on it. A family that is already stored (and truthy, that is,
  not the empty string) is returned as it is. In the \<^verbatim>\<open>switch\<close>, the statements
  after the first \<^verbatim>\<open>break\<close> of the \<^verbatim>\<open>"openai"\<close> cases (lines 411-416, the test
  for the xai service) are never run, and every API format has its case, so
  \<^verbatim>\<open>assertNever\<close> is not reached.
\<close>

definition getModelFamilyForRequest :: "Request \<Rightarrow> ModelFamily \<times> Request" where
  "getModelFamilyForRequest req =
     (case (case modelFamily req of None \<Rightarrow> None | Some f \<Rightarrow> if f = [] then None else Some f) of
        Some f \<Rightarrow> (f, req)
      | None \<Rightarrow>
         (let model = (case body_model req of None \<Rightarrow> ''gpt-3.5-turbo'' | Some m \<Rightarrow> m);
              family =
                (if req_service req = svc_aws then getAwsBedrockModelFamily model
                 else if req_service req = svc_gcp then getGcpModelFamily model
                 else if req_service req = svc_azure then getAzureOpenAIModelFamily model
                 else if req_service req = svc_qwen then ''qwen''
                 else
                   (case outboundApi req of
                      api_anthropic_chat \<Rightarrow> getClaudeModelFamily model
                    | api_anthropic_text \<Rightarrow> getClaudeModelFamily model
                    | api_openai \<Rightarrow>
                        if req_service req = svc_deepseek then ''deepseek''
                        else getOpenAIModelFamily model
                    | api_openai_text \<Rightarrow>
                        if req_service req = svc_deepseek then ''deepseek''
                        else getOpenAIModelFamily model
                    | api_openai_image \<Rightarrow>
                        if req_service req = svc_deepseek then ''deepseek''
                        else getOpenAIModelFamily model
                    | api_google_ai \<Rightarrow> getGoogleAIModelFamily model
                    | api_mistral_ai \<Rightarrow> getMistralAIModelFamily model
                    | api_mistral_text \<Rightarrow> getMistralAIModelFamily model
                    | api_openai_responses \<Rightarrow> getOpenAIModelFamily model))
          in (family, req\<lparr>modelFamily := Some family\<rparr>)))"


section \<open>Context validation (\<^verbatim>\<open>validate-context-size.ts\<close>)\<close>

text \<open>
  The two limits that the deployment configures (\<^verbatim>\<open>config.maxContextTokensAnthropic\<close>,
  \<^verbatim>\<open>config.maxContextTokensOpenAI\<close>) and the two that the file fixes.
\<close>

record Config =
  maxContextTokensAnthropic :: int
  maxContextTokensOpenAI :: int

definition GOOGLE_AI_MAX_CONTEXT :: int where
  "GOOGLE_AI_MAX_CONTEXT = 84000"

definition MISTRAL_AI_MAX_CONTENT :: int where
  "MISTRAL_AI_MAX_CONTENT = 131072"

definition MAX_SAFE_INTEGER :: int where
  "MAX_SAFE_INTEGER = 9007199254740991"

text \<open>
  Lines 27-49: the limit of the proxy for the outbound API; \<open>None\<close> stands for the
  \<^verbatim>\<open>return\<close> of the \<^verbatim>\<open>"openai-image"\<close> case.
\<close>

definition configured_proxyMax :: "Config \<Rightarrow> APIFormat \<Rightarrow> int option" where
  "configured_proxyMax cfg api =
     (case api of
        api_openai \<Rightarrow> Some (maxContextTokensOpenAI cfg)
      | api_openai_text \<Rightarrow> Some (maxContextTokensOpenAI cfg)
      | api_openai_responses \<Rightarrow> Some (maxContextTokensOpenAI cfg)
      | api_anthropic_chat \<Rightarrow> Some (maxContextTokensAnthropic cfg)
      | api_anthropic_text \<Rightarrow> Some (maxContextTokensAnthropic cfg)
      | api_google_ai \<Rightarrow> Some GOOGLE_AI_MAX_CONTEXT
      | api_mistral_ai \<Rightarrow> Some MISTRAL_AI_MAX_CONTENT
      | api_mistral_text \<Rightarrow> Some MISTRAL_AI_MAX_CONTENT
      | api_openai_image \<Rightarrow> None)"

text \<open>
  Lines 50-55: \<^verbatim>\<open>proxyMax ||= Number.MAX_SAFE_INTEGER\<close> replaces a limit of zero, and
  a user of type \<^verbatim>\<open>"special"\<close> is not held to the proxy's limit.
\<close>

definition enforced_proxyMax :: "int \<Rightarrow> string option \<Rightarrow> int" where
  "enforced_proxyMax configured utype =
     (let proxyMax = (if configured = 0 then MAX_SAFE_INTEGER else configured)
      in if utype = Some ''special'' then MAX_SAFE_INTEGER else proxyMax)"

text \<open>Lines 57-154: the context window of the model, by the first pattern that matches.\<close>

definition modelMax_for :: "string \<Rightarrow> int" where
  "modelMax_for model =
    (if rx_test (False, seqs [str ''gpt-3'', Dot, str ''5-turbo-16k'']) model then 16384
     else if rx_test (True, str ''gpt-4o'') model then 128000
     else if rx_test (True, seqs [str ''gpt-4'', Dot, str ''5'']) model then 128000
     else if rx_test (True, seqs [str ''gpt-4.1'', Opt date_suffix, Eol]) model then 1000000
     else if rx_test (True, seqs [str ''gpt-4.1-mini'', Opt date_suffix, Eol]) model then 1000000
     else if rx_test (True, seqs [str ''gpt-4.1-nano'', Opt date_suffix, Eol]) model then 1000000
     else if rx_test (True, str ''chatgpt-4o'') model then 128000
     else if rx_test (False, seqs [str ''gpt-4-turbo'', Opt date_suffix, Eol]) model then 131072
     else if rx_test (False, seqs [str ''gpt-4-turbo'', Opt (str ''-preview''), Eol]) model then 131072
     else if rx_test (False, seqs [str ''gpt-4-'', Alt (str ''0125'') (str ''1106''),
                                   Opt (str ''-preview''), Eol]) model then 131072
     else if rx_test (True, seqs [str ''gpt-4'', Opt (Seq (Lit CHR ''-'') (Times 4 Digit)),
                                  str ''-vision'', Opt (str ''-preview''), Eol]) model then 131072
     else if rx_test (True, seqs [str ''o3-mini'', Opt date_suffix, Eol]) model then 200000
     else if rx_test (True, seqs [str ''o3'', Opt date_suffix, Eol]) model then 200000
     else if rx_test (True, seqs [str ''o4-mini'', Opt date_suffix, Eol]) model then 200000
     else if rx_test (True, seqs [str ''codex-mini'', Opt (Alt (str ''-latest'') date_suffix), Eol]) model
       then 200000
     else if rx_test (True, seqs [str ''o1'', Opt date_suffix, Eol]) model then 200000
     else if rx_test (True, seqs [str ''o1-mini'', Opt date_suffix, Eol]) model then 128000
     else if rx_test (True, seqs [str ''o1-pro'', Opt date_suffix, Eol]) model then 200000
     else if rx_test (True, seqs [str ''o3-pro'', Opt date_suffix, Eol]) model then 200000
     else if rx_test (True, seqs [str ''o1-preview'', Opt date_suffix, Eol]) model then 128000
     else if rx_test (False, seqs [str ''gpt-3'', Dot, str ''5-turbo'']) model then 16384
     else if rx_test (False, str ''gpt-4-32k'') model then 32768
     else if rx_test (False, str ''gpt-4'') model then 8192
     else if rx_test (True, seqs [str ''claude-'', Opt (str ''instant-''), str ''v1'',
                                  Opt (Seq (Lit CHR ''.'') Digit), str ''-100k'']) model then 100000
     else if rx_test (True, seqs [str ''claude-'', Opt (str ''instant-''), str ''v1'',
                                  Opt (Seq (Lit CHR ''.'') Digit), Eol]) model then 9000
     else if rx_test (True, str ''claude-2.0'') model then 100000
     else if rx_test (True, str ''claude-2'') model then 200000
     else if rx_test (True, str ''claude-3'') model then 200000
     else if rx_test (True, seqs [str ''claude-'', Alt (str ''sonnet'') (str ''opus''), str ''-4'']) model
       then 200000
     else if rx_test (True, str ''gemini-'') model then 1024000
     else if rx_test (True, str ''anthropic.claude-3'') model then 200000
     else if rx_test (True, seqs [str ''anthropic.claude-'', Alt (str ''sonnet'') (str ''opus''),
                                  str ''-4'']) model then 200000
     else if rx_test (True, seqs [str ''anthropic.claude-v2:'', Digit]) model then 200000
     else if rx_test (True, str ''anthropic.claude'') model then 100000
     else if rx_test (True, str ''deepseek'') model then 64000
     else if rx_test (True, str ''kimi-k2'') model then 131000
     else if rx_test (False, str ''moonshot'') model then 200000
     else if rx_test (False, seqs [str ''command'', Star (Alt WordCh (Lit CHR ''-'')),
                                   str ''-03-202'', Digit]) model then 256000
     else if rx_test (False, str ''command'') model \<or> rx_test (False, str ''cohere'') model
       then 128000
     else if rx_test (True, str ''grok-4'') model then 256000
     else if rx_test (True, str ''grok'') model then 128000
     else if rx_test (True, str ''magistral'') model then 40000
     else if rx_test (False, str ''tral'') model then MISTRAL_AI_MAX_CONTENT
     else 200000)"

text \<open>
  \<^verbatim>\<open>assertRequestHasTokenCounts\<close>, lines 177-186: both counts are present and are
  integers of at least 1.
\<close>

definition assertRequestHasTokenCounts :: "Request \<Rightarrow> error + (int \<times> int)" where
  "assertRequestHasTokenCounts req =
     (case (promptTokens req, outputTokens req) of
        (Some pt, Some ot) \<Rightarrow> if 1 \<le> pt \<and> 1 \<le> ot then Inr (pt, ot) else Inl ZodTokenCounts
      | _ \<Rightarrow> Inl ZodTokenCounts)"

text \<open>
  \<^verbatim>\<open>validateContextSize\<close>, lines 20-175. The error of the size check is the
  \<^verbatim>\<open>ZodError\<close> whose message starts "Your request exceeds the context size limit";
  \<open>ContextTooLarge\<close> carries the limit, the prompt tokens and the output tokens that
  the message reports. A request without \<^verbatim>\<open>body.model\<close> fails on
  \<^verbatim>\<open>model.match\<close>.

  The token counts are integers (\<^verbatim>\<open>z.number().int()\<close>), and line 24 adds them
  as numbers of JavaScript: the sum is exact up to \<^verbatim>\<open>Number.MAX_SAFE_INTEGER\<close>
  and is rounded beyond. The comparison with the limit is not affected: the window of
  a model is at most 1024000, so a sum that is rounded is above the limit before and
  after the rounding. The model therefore compares the exact sum; the sum as the
  message prints it is not part of the error value.
\<close>

definition validateContextSize :: "Config \<Rightarrow> Request \<Rightarrow> error + Request" where
  "validateContextSize cfg req =
     (case assertRequestHasTokenCounts req of
        Inl e \<Rightarrow> Inl e
      | Inr (pt, ot) \<Rightarrow>
          (let contextTokens = pt + ot in
           case configured_proxyMax cfg (outboundApi req) of
             None \<Rightarrow> Inr req
           | Some configured \<Rightarrow>
               (let proxyMax = enforced_proxyMax configured (user_type req) in
                case body_model req of
                  None \<Rightarrow> Inl TypeError
                | Some model \<Rightarrow>
                    (let modelMax = modelMax_for model;
                         finalMax = min proxyMax modelMax
                     in if contextTokens > finalMax then Inl (ContextTooLarge finalMax pt ot)
                        else Inr (req\<lparr>tokenizerInfo := (tokenizerInfo req)
                               \<lparr>prompt_tokens := Some pt,
                                completion_tokens := Some ot,
                                max_model_tokens := Some modelMax,
                                max_proxy_tokens := Some proxyMax\<rparr>\<rparr>)))))"


section \<open>Handlers of upstream errors (\<^verbatim>\<open>middleware/response/index.ts\<close>)\<close>

text \<open>
  \<^verbatim>\<open>ProxiedErrorPayload\<close> with the properties of \<^verbatim>\<open>errorPayload.error\<close> that the
  two handlers read. \<open>err_json\<close> is \<^verbatim>\<open>JSON.stringify(errorPayload.error)\<close>, the
  serialisation of the whole error object, which the handlers search as text.
\<close>

record ErrorBody =
  err_message :: "string option"
  err_status :: "string option"
  err_json :: string

record ErrorPayload =
  error_body :: "ErrorBody option"
  proxy_note :: "string option"

text \<open>
  What a handler works on: the key pool, the requests that \<^verbatim>\<open>reenqueueRequest\<close>
  has put back, the payload and the request. A handler returns normally (\<open>None\<close>) or
  throws (\<open>Some\<close>), in either case with the state it leaves.
\<close>

record HState =
  pool :: KeyPool
  reenqueued :: "Request list"
  payload :: ErrorPayload
  request :: Request

text \<open>
  Modelled from the spec: \<^verbatim>\<open>reenqueueRequest\<close> is in \<^verbatim>\<open>proxy/queue.ts\<close>, which is
  not among the sources. The spec's glossary has "Re-enqueue: append a request that has
  already been dispatched once back onto its partition's tail after a retryable
  failure"; the model records the request at the tail of the re-enqueued ones.
\<close>

definition reenqueueRequest :: "HState \<Rightarrow> HState" where
  "reenqueueRequest st = st\<lparr>reenqueued := reenqueued st @ [request st]\<rparr>"

definition set_note :: "string \<Rightarrow> HState \<Rightarrow> HState" where
  "set_note note st = st\<lparr>payload := (payload st)\<lparr>proxy_note := Some note\<rparr>\<rparr>"

definition dq :: string where
  "dq = [CHR 0x22]"

text \<open>
  The prefix that \<^verbatim>\<open>handleAnthropicAwsBadRequestError\<close> looks for, line 449: the
  template literal \<^verbatim>\<open>prompt must start with "\n\nHuman:" turn\<close>, whose escapes are
  two line feeds.
\<close>

definition missing_preamble_prefix :: string where
  "missing_preamble_prefix =
     ''prompt must start with '' @ dq @ [CHR 0x0A, CHR 0x0A] @ ''Human:'' @ dq @ '' turn''"

definition message_matches :: "regex list \<Rightarrow> ErrorBody option \<Rightarrow> bool" where
  "message_matches res e =
     (case e of
        None \<Rightarrow> False
      | Some b \<Rightarrow> (case err_message b of
                     None \<Rightarrow> False
                   | Some msg \<Rightarrow> list_ex (\<lambda>re. rx_test re msg) res))"

text \<open>
  \<^verbatim>\<open>handleAnthropicAwsBadRequestError\<close>, lines 443-495, which
  \<^verbatim>\<open>handleUpstreamErrors\<close> calls on a status of 400 from the services anthropic, aws
  and gcp. \<^verbatim>\<open>error?.message.startsWith\<close> throws when the error has no message;
  \<^verbatim>\<open>req.key!\<close> is used unchecked.
\<close>

definition handleAnthropicAwsBadRequestError :: "HState \<Rightarrow> error option \<times> HState" where
  "handleAnthropicAwsBadRequestError st =
     (let e = error_body (payload st) in
      case (case e of
              None \<Rightarrow> Inr False
            | Some b \<Rightarrow> (case err_message b of
                           None \<Rightarrow> Inl TypeError
                         | Some msg \<Rightarrow> Inr (startsWith msg missing_preamble_prefix))) of
        Inl err \<Rightarrow> (Some err, st)
      | Inr isMissingPreamble \<Rightarrow>
          if isMissingPreamble then
            (case req_key (request st) of
               None \<Rightarrow> (Some TypeError, st)
             | Some k \<Rightarrow>
                 (case KeyPool_update k (no_patch\<lparr>set_requiresPreamble := Some True\<rparr>) (pool st) of
                    Inl err \<Rightarrow> (Some err, st)
                  | Inr pool' \<Rightarrow>
                      (Some (RetryableError ''Claude request re-enqueued to add preamble.''),
                       reenqueueRequest (st\<lparr>pool := pool'\<rparr>))))
          else if message_matches
                    [(False, str_i ''usage blocked until''),
                     (False, str_i ''credit balance is too low''),
                     (False, str_i ''You will regain access on''),
                     (False, str_i ''reached your specified API usage limits'')] e
          then
            (case req_key (request st) of
               None \<Rightarrow> (Some TypeError, st)
             | Some k \<Rightarrow>
                 (case KeyPool_disable k quota (pool st) of
                    Inl err \<Rightarrow> (Some err, st)
                  | Inr pool' \<Rightarrow>
                      (None, set_note (''Assigned key has hit its spending limit. '' @
                                       (case e of None \<Rightarrow> ''undefined''
                                        | Some b \<Rightarrow> (case err_message b of None \<Rightarrow> ''undefined''
                                                      | Some msg \<Rightarrow> msg)))
                               (st\<lparr>pool := pool'\<rparr>))))
          else if message_matches
                    [(False, str_i ''organization has been disabled''),
                     (True, str_i ''operation not allowed''),
                     (False, str_i ''credential is only authorized for use with Claude Code'')] e
          then
            (case req_key (request st) of
               None \<Rightarrow> (Some TypeError, st)
             | Some k \<Rightarrow>
                 (case KeyPool_disable k revoked (pool st) of
                    Inl err \<Rightarrow> (Some err, st)
                  | Inr pool' \<Rightarrow>
                      (None, set_note (''Assigned key has been disabled. ('' @
                                       (case e of None \<Rightarrow> ''undefined''
                                        | Some b \<Rightarrow> (case err_message b of None \<Rightarrow> ''undefined''
                                                      | Some msg \<Rightarrow> msg)) @ '')'')
                               (st\<lparr>pool := pool'\<rparr>))))
          else
            (None, set_note (''Unrecognized error from the API. ('' @
                             (case e of None \<Rightarrow> ''undefined''
                              | Some b \<Rightarrow> (case err_message b of None \<Rightarrow> ''undefined''
                                            | Some msg \<Rightarrow> msg)) @ '')'')
                     st))"

text \<open>
  The patterns of \<^verbatim>\<open>handleGoogleAIRateLimitError\<close>, lines 770-780, all with the
  \<^verbatim>\<open>i\<close> flag.
\<close>

definition keyDeadMsgs :: "regex list" where
  "keyDeadMsgs =
     [(False, str_i ''GenerateContentRequestsPerMinutePerProjectPerRegion''),
      (False, str_i (dq @ ''quota_limit_value'' @ dq @ '':'' @ dq @ ''0'' @ dq))]"

definition quotaExhaustedMsgs :: "regex list" where
  "quotaExhaustedMsgs =
     [(False, str_i ''quota exceeded''),
      (False, Alt (str_i ''free tier'') (str_i ''free_tier'')),
      (False, str_i ''quota limit'')]"

text \<open>
  Line 791, \<^verbatim>\<open>keyDeadMsgs.some((msg) => msg.test(text))\<close>, and line 802,
  \<^verbatim>\<open>isQuotaExhausted\<close>.
\<close>

definition key_dead :: "string \<Rightarrow> bool" where
  "key_dead text = list_ex (\<lambda>msg. rx_test msg text) keyDeadMsgs"

definition quota_exhausted :: "string \<Rightarrow> string \<Rightarrow> bool" where
  "quota_exhausted text errorMessage =
     list_ex (\<lambda>pattern. rx_test pattern text \<or> rx_test pattern errorMessage) quotaExhaustedMsgs"

text \<open>Line 766: \<^verbatim>\<open>errorPayload.error?.message?.toLowerCase() || ''\<close>.\<close>

definition errorMessage_of :: "ErrorBody \<Rightarrow> string" where
  "errorMessage_of b = (case err_message b of None \<Rightarrow> '''' | Some msg \<Rightarrow> toLowerCase msg)"

text \<open>
  Lines 817-831: the family that the handler takes the request to be for, from the
  name of the model; \<open>None\<close> when it "can't be determined".
\<close>

definition familyToRemove :: "string \<Rightarrow> ModelFamily option" where
  "familyToRemove modelName =
     (if includes_str modelName ''pro'' then Some ''gemini-pro''
      else if includes_str modelName ''flash'' then Some ''gemini-flash''
      else if includes_str modelName ''ultra'' then Some ''gemini-ultra''
      else None)"

definition quota_note :: "ModelFamily option \<Rightarrow> string" where
  "quota_note fam =
     (if fam = Some ''gemini-pro'' then ''Assigned API key has exhausted quota for Gemini Pro models.''
      else if fam = Some ''gemini-flash'' then ''Assigned API key has exhausted quota for Gemini Flash models.''
      else if fam = Some ''gemini-ultra'' then ''Assigned API key has exhausted quota for Gemini Ultra models.''
      else ''Assigned API key has exhausted quota but model family couldn't be determined.'')"

text \<open>
  Lines 842-845: \<^verbatim>\<open>googleKey.overQuotaFamilies || []\<close> with the family pushed when it
  is not in it yet.
\<close>

definition with_overQuota :: "ModelFamily list option \<Rightarrow> ModelFamily \<Rightarrow> ModelFamily list" where
  "with_overQuota fams fam =
     (let oqf = (case fams of None \<Rightarrow> [] | Some fs \<Rightarrow> fs)
      in if fam \<in> set oqf then oqf else oqf @ [fam])"

text \<open>
  \<^verbatim>\<open>handleGoogleAIRateLimitError\<close>, lines 760-888, which \<^verbatim>\<open>handleUpstreamErrors\<close>
  calls on a status of 429 from the google-ai service. \<open>now\<close> is the \<^verbatim>\<open>Date.now()\<close>
  of \<^verbatim>\<open>markRateLimited\<close>. The text of an absent error object is
  \<^verbatim>\<open>undefined\<close>, which the patterns test as the string "undefined". The request's key
  is the copy that \<^verbatim>\<open>get\<close> gave; the push on its \<^verbatim>\<open>overQuotaFamilies\<close> array
  changes the copy as well when it has that array.
\<close>

definition handleGoogleAIRateLimitError :: "int \<Rightarrow> HState \<Rightarrow> error option \<times> HState" where
  "handleGoogleAIRateLimitError now st =
     (let e = error_body (payload st);
          status = (case e of None \<Rightarrow> None | Some b \<Rightarrow> err_status b);
          text = (case e of None \<Rightarrow> ''undefined'' | Some b \<Rightarrow> err_json b);
          errorMessage = (case e of None \<Rightarrow> '''' | Some b \<Rightarrow> errorMessage_of b)
      in case req_key (request st) of
           None \<Rightarrow>
             (None, set_note ''Rate limit error but no key was found in the request.'' st)
         | Some k \<Rightarrow>
             if status = Some ''RESOURCE_EXHAUSTED'' then
               if key_dead text then
                 (case KeyPool_disable k revoked (pool st) of
                    Inl err \<Rightarrow> (Some err, st)
                  | Inr pool' \<Rightarrow>
                      (None, set_note ''Assigned API key cannot be used.'' (st\<lparr>pool := pool'\<rparr>)))
               else
                 (let isQuotaExhausted = quota_exhausted text errorMessage
                  in if isQuotaExhausted \<and> body_model (request st) \<noteq> None
                          \<and> body_model (request st) \<noteq> Some ''''
                     then
                       (let modelName = the (body_model (request st));
                            fam = familyToRemove modelName;
                            st1 = set_note (quota_note fam) st
                        in case (case fam of
                                   None \<Rightarrow>
                                     (case KeyPool_markRateLimited now k (pool st) of
                                        Inl err \<Rightarrow> Inl (err, st)
                                      | Inr pool' \<Rightarrow> Inr (st1\<lparr>pool := pool'\<rparr>))
                                 | Some f \<Rightarrow>
                                     (let updatedFamilies = filter (\<lambda>x. x \<noteq> f) (modelFamilies k);
                                          oqf = with_overQuota (overQuotaFamilies k) f;
                                          upd = no_patch\<lparr>set_modelFamilies := Some updatedFamilies,
                                                          set_isOverQuota := Some True,
                                                          set_overQuotaFamilies := Some oqf\<rparr>;
                                          k' = (case overQuotaFamilies k of
                                                  None \<Rightarrow> k
                                                | Some _ \<Rightarrow> k\<lparr>overQuotaFamilies := Some oqf\<rparr>);
                                          st2 = st1\<lparr>request := (request st1)\<lparr>req_key := Some k'\<rparr>\<rparr>
                                      in case KeyPool_update k' upd (pool st2) of
                                           Inl err \<Rightarrow> Inl (err, st2)
                                         | Inr pool' \<Rightarrow> Inr (st2\<lparr>pool := pool'\<rparr>))) of
                             Inl (err, st_err) \<Rightarrow> (Some err, st_err)
                           | Inr st3 \<Rightarrow>
                               (Some (RetryableError
                                  ''Quota-exhausted request re-enqueued with a different key.''),
                                reenqueueRequest st3))
                     else
                       (case KeyPool_markRateLimited now k (pool st) of
                          Inl err \<Rightarrow> (Some err, st)
                        | Inr pool' \<Rightarrow>
                            (Some (RetryableError ''Rate-limited request re-enqueued.''),
                             reenqueueRequest (st\<lparr>pool := pool'\<rparr>))))
             else
               (None, set_note (''Unrecognized rate limit error from Google AI ('' @
                                (case status of None \<Rightarrow> ''undefined'' | Some s \<Rightarrow> s) @
                                ''). Please report this.'') st))"


section \<open>The transformer of streamed events (\<^verbatim>\<open>SSEMessageTransformer\<close>)\<close>

text \<open>
  A streamed event as the transformer handles it: \<^verbatim>\<open>event.object\<close> (absent on the
  events that are not OpenAI's), the metadata, and the choices with their
  \<^verbatim>\<open>delta\<close>.
\<close>

record Delta =
  role :: "string option"
  content :: "string option"

record Choice =
  choice_index :: int
  delta :: Delta
  finish_reason :: "string option"

record StreamEvent =
  event_object :: "string option"
  event_id :: string
  event_model :: string
  choices :: "Choice list"

text \<open>
  The argument and the result of a \<^verbatim>\<open>StreamingCompletionTransformer\<close>. The
  transformers themselves (\<^verbatim>\<open>passthroughToOpenAI\<close>, \<^verbatim>\<open>anthropicChatToOpenAI\<close>
  and the others that \<^verbatim>\<open>getTransformer\<close> selects) are not among the sources; the
  one in use is a parameter of the model, and it may throw.
\<close>

record 's TransformArgs =
  arg_data :: string
  arg_lastPosition :: int
  arg_index :: nat
  arg_fallbackId :: string
  arg_fallbackModel :: string
  arg_state :: 's

record 's TransformResult =
  res_event :: "StreamEvent option"
  res_position :: int
  res_state :: 's

type_synonym 's transformFn = "'s TransformArgs \<Rightarrow> error + 's TransformResult"

text \<open>The fields of the transformer, as its constructor sets them (lines 328-349).\<close>

record 's SSEMessageTransformer =
  lastPosition :: int
  transformState :: 's
  msgCount :: nat
  inputFormat :: APIFormat
  fallbackId :: string
  fallbackModel :: string

text \<open>\<^verbatim>\<open>eventIsOpenAIEvent\<close>, lines 399-403.\<close>

definition eventIsOpenAIEvent :: "StreamEvent \<Rightarrow> bool" where
  "eventIsOpenAIEvent ev = (event_object ev = Some ''chat.completion.chunk'')"

text \<open>\<^verbatim>\<open>createInitialMessage\<close>, lines 453-463.\<close>

definition createInitialMessage :: "StreamEvent \<Rightarrow> StreamEvent" where
  "createInitialMessage ev =
     ev\<lparr>choices := map (\<lambda>choice. choice\<lparr>delta := \<lparr>role = Some ''assistant'', content = Some ''''\<rparr>\<rparr>)
                        (choices ev)\<rparr>"

text \<open>
  What one call of \<^verbatim>\<open>_transform\<close> does to the outside: the
  \<^verbatim>\<open>"originalMessage"\<close> events it emits, the events it pushes to the client, and the
  error it hands to the callback, if any.
\<close>

record 's TransformStep =
  transformer :: "'s SSEMessageTransformer"
  emitted :: "string list"
  pushed :: "StreamEvent list"
  callback_error :: "error option"

text \<open>
  \<^verbatim>\<open>_transform(chunk, _encoding, callback)\<close>, lines 351-397. \<open>chunk\<close> is
  \<^verbatim>\<open>chunk.toString()\<close>. \<^verbatim>\<open>this.msgCount++\<close> is evaluated with the arguments, so
  the count has grown when the transformer function throws.
\<close>

definition SSE_transform ::
  "'s transformFn \<Rightarrow> 's SSEMessageTransformer \<Rightarrow> string \<Rightarrow> 's TransformStep" where
  "SSE_transform transformFn t chunk =
     (let originalMessage = chunk;
          t1 = t\<lparr>msgCount := msgCount t + 1\<rparr>
      in case transformFn \<lparr> arg_data = originalMessage, arg_lastPosition = lastPosition t,
                            arg_index = msgCount t, arg_fallbackId = fallbackId t,
                            arg_fallbackModel = fallbackModel t,
                            arg_state = transformState t \<rparr> of
           Inl err \<Rightarrow>
             \<lparr> transformer = t1, emitted = [], pushed = [], callback_error = Some err \<rparr>
         | Inr r \<Rightarrow>
             (let t2 = t1\<lparr>lastPosition := res_position r, transformState := res_state r\<rparr>
              in if inputFormat t2 = api_openai \<and> msgCount t2 \<le> 1 \<and>
                    includes_str originalMessage ''prompt_filter_results''
                 then \<lparr> transformer = t2, emitted = [], pushed = [], callback_error = None \<rparr>
                 else
                   (case res_event r of
                      None \<Rightarrow>
                        \<lparr> transformer = t2, emitted = [originalMessage], pushed = [],
                          callback_error = None \<rparr>
                    | Some transformedMessage \<Rightarrow>
                        \<lparr> transformer = t2, emitted = [originalMessage],
                          pushed = (if msgCount t2 = 1 \<and> eventIsOpenAIEvent transformedMessage
                                    then [createInitialMessage transformedMessage, transformedMessage]
                                    else [transformedMessage]),
                          callback_error = None \<rparr>)))"

text \<open>
  The stream calls \<^verbatim>\<open>_transform\<close> chunk by chunk and stops at the first error that
  a callback receives.
\<close>

fun SSE_run ::
  "'s transformFn \<Rightarrow> 's SSEMessageTransformer \<Rightarrow> string list \<Rightarrow> 's TransformStep" where
  "SSE_run transformFn t [] =
     \<lparr> transformer = t, emitted = [], pushed = [], callback_error = None \<rparr>"
| "SSE_run transformFn t (chunk # chunks) =
     (let s = SSE_transform transformFn t chunk
      in if callback_error s \<noteq> None then s
         else (let rest = SSE_run transformFn (transformer s) chunks
               in rest\<lparr> emitted := emitted s @ emitted rest, pushed := pushed s @ pushed rest \<rparr>))"

section \<open>The info page (\<^verbatim>\<open>buildInfo\<close>)\<close>

text \<open>
  The module's cache, lines 653-654: \<^verbatim>\<open>cachedInfo\<close> starts undefined and
  \<^verbatim>\<open>cacheTime\<close> at 0.
\<close>

record 'info InfoCache =
  cachedInfo :: "'info option"
  cacheTime :: int

definition CACHE_TTL :: int where
  "CACHE_TTL = 2000"

definition initial_cache :: "'info InfoCache" where
  "initial_cache = \<lparr> cachedInfo = None, cacheTime = 0 \<rparr>"

text \<open>
  \<^verbatim>\<open>buildInfo(baseUrl, forAdmin)\<close>, lines 656-699. \<open>now\<close> is \<^verbatim>\<open>Date.now()\<close> and
  \<open>fresh\<close> is the document that lines 659-698 compute from the keys, the queues and
  the configuration at the time of the call. The result is the returned document
  (\<^verbatim>\<open>cachedInfo!\<close> may be undefined) and the cache after the call; no statement of
  the file assigns \<^verbatim>\<open>cacheTime\<close>.
\<close>

definition buildInfo :: "int \<Rightarrow> 'info \<Rightarrow> 'info InfoCache \<Rightarrow> 'info option \<times> 'info InfoCache" where
  "buildInfo now fresh c =
     (if cacheTime c + CACHE_TTL > now then (cachedInfo c, c)
      else (Some fresh, c\<lparr>cachedInfo := Some fresh\<rparr>))"


section \<open>The spec's words, and inputs for the examples\<close>

text \<open>
  Eligibility as the spec words it for \<^verbatim>\<open>get\<close>: "!isDisabled, not currently
  rate-limited (now >= rateLimitedUntil), family in modelFamilies".
\<close>

definition spec_eligible :: "int \<Rightarrow> ModelFamily \<Rightarrow> Key \<Rightarrow> bool" where
  "spec_eligible now family k =
     (\<not> isDisabled k \<and> rateLimitedUntil k \<le> now \<and> family \<in> set (modelFamilies k))"

text \<open>Two Moonshot keys; \<open>key_b\<close> was used before \<open>key_a\<close>.\<close>

definition key_a :: Key where
  "key_a = (new_key ''sk-a'' ''a'')\<lparr>lastUsed := 5\<rparr>"

definition key_b :: Key where
  "key_b = (new_key ''sk-b'' ''b'')\<lparr>lastUsed := 1\<rparr>"

text \<open>A pool with the Moonshot provider holding \<open>key_a\<close>.\<close>

definition moonshot_pool :: KeyPool where
  "moonshot_pool = [\<lparr>provider_service = svc_openai, keys = []\<rparr>,
                    \<lparr>provider_service = svc_moonshot, keys = [key_a]\<rparr>]"

text \<open>
  A deployment with an OpenAI limit of 32768 tokens, and a request of a user of type
  \<^verbatim>\<open>"special"\<close> for 50000 prompt tokens and 1000 output tokens.
\<close>

definition cfg_32k :: Config where
  "cfg_32k = \<lparr>maxContextTokensAnthropic = 0, maxContextTokensOpenAI = 32768\<rparr>"

definition no_tokenizerInfo :: TokenizerInfo where
  "no_tokenizerInfo = \<lparr>prompt_tokens = None, completion_tokens = None,
                        max_model_tokens = None, max_proxy_tokens = None\<rparr>"

definition special_request :: Request where
  "special_request =
     \<lparr> req_key = None, req_service = svc_openai, outboundApi = api_openai,
       body_model = Some ''gpt-4o'', modelFamily = None, promptTokens = Some 50000,
       outputTokens = Some 1000, user_type = Some ''special'',
       tokenizerInfo = no_tokenizerInfo \<rparr>"

text \<open>A Grok request of the xai service, with no family stored on it yet.\<close>

definition grok_request :: Request where
  "grok_request =
     \<lparr> req_key = None, req_service = svc_xai, outboundApi = api_openai,
       body_model = Some ''grok-3'', modelFamily = None, promptTokens = None,
       outputTokens = None, user_type = None, tokenizerInfo = no_tokenizerInfo \<rparr>"

text \<open>
  An Anthropic key in its provider, and the state of the handler for a request of
  that key whose upstream answer is the error about the missing preamble.
\<close>

definition anthropic_key :: Key where
  "anthropic_key =
     (new_key ''sk-ant-1'' ''h1'')\<lparr>service := svc_anthropic, modelFamilies := [''claude'']\<rparr>"

definition preamble_state :: HState where
  "preamble_state =
     \<lparr> pool = [\<lparr>provider_service = svc_anthropic, keys = [anthropic_key]\<rparr>],
       reenqueued = [],
       payload =
         \<lparr> error_body =
             Some \<lparr> err_message =
                      Some (missing_preamble_prefix @ '' after an optional system prompt''),
                    err_status = None, err_json = '''' \<rparr>,
           proxy_note = None \<rparr>,
       request =
         \<lparr> req_key = Some anthropic_key, req_service = svc_anthropic,
           outboundApi = api_anthropic_text, body_model = Some ''claude-2.1'',
           modelFamily = Some ''claude'', promptTokens = Some 10, outputTokens = Some 10,
           user_type = None, tokenizerInfo = no_tokenizerInfo \<rparr> \<rparr>"

text \<open>
  A Google AI key with the families gemini-pro and gemini-flash in its provider, the
  error object of a 429 with a given message (\<open>err_json\<close> is its serialisation), and
  the state of the handler for a request for \<^verbatim>\<open>gemini-1.5-pro\<close> with that key.
\<close>

definition quoted :: "string \<Rightarrow> string" where
  "quoted s = dq @ s @ dq"

definition google_key :: Key where
  "google_key =
     (new_key ''AIza-1'' ''g1'')\<lparr>service := svc_google_ai,
        modelFamilies := [''gemini-pro'', ''gemini-flash''], overQuotaFamilies := Some []\<rparr>"

definition google_error :: "string \<Rightarrow> ErrorBody" where
  "google_error msg =
     \<lparr> err_message = Some msg, err_status = Some ''RESOURCE_EXHAUSTED'',
       err_json = ''{'' @ quoted ''code'' @ '':429,'' @ quoted ''message'' @ '':'' @ quoted msg @
                  '','' @ quoted ''status'' @ '':'' @ quoted ''RESOURCE_EXHAUSTED'' @ ''}'' \<rparr>"

definition google_state :: "string \<Rightarrow> HState" where
  "google_state msg =
     \<lparr> pool = [\<lparr>provider_service = svc_google_ai, keys = [google_key]\<rparr>],
       reenqueued = [],
       payload = \<lparr>error_body = Some (google_error msg), proxy_note = None\<rparr>,
       request =
         \<lparr> req_key = Some google_key, req_service = svc_google_ai, outboundApi = api_google_ai,
           body_model = Some ''gemini-1.5-pro'', modelFamily = Some ''gemini-pro'',
           promptTokens = Some 10, outputTokens = Some 10, user_type = None,
           tokenizerInfo = no_tokenizerInfo \<rparr> \<rparr>"

text \<open>
  Two messages of such an error: a plain exhausted quota, and one that also names the
  per-minute limit by which Google blocks a key.
\<close>

definition quota_msg :: string where
  "quota_msg = ''Quota exceeded for quota metric Generate Content API requests per day''"

definition dead_msg :: string where
  "dead_msg = ''Quota exceeded for limit GenerateContentRequestsPerMinutePerProjectPerRegion''"

text \<open>
  The first event of an OpenAI stream, which carries the role and no content, a
  transformer function that hands it through whatever the chunk, and a fresh
  transformer for an upstream that speaks the OpenAI dialect.
\<close>

definition role_event :: StreamEvent where
  "role_event =
     \<lparr> event_object = Some ''chat.completion.chunk'', event_id = ''chatcmpl-1'',
       event_model = ''gpt-4o'',
       choices = [\<lparr> choice_index = 0,
                    delta = \<lparr>role = Some ''assistant'', content = Some ''''\<rparr>,
                    finish_reason = None \<rparr>] \<rparr>"

definition hand_through :: "StreamEvent \<Rightarrow> unit transformFn" where
  "hand_through ev args =
     Inr \<lparr> res_event = Some ev, res_position = arg_lastPosition args, res_state = () \<rparr>"

definition fresh_transformer :: "APIFormat \<Rightarrow> unit SSEMessageTransformer" where
  "fresh_transformer api =
     \<lparr> lastPosition = 0, transformState = (), msgCount = 0, inputFormat = api,
       fallbackId = ''req-1'', fallbackModel = ''gpt-4o'' \<rparr>"


section \<open>Properties of the Moonshot key provider\<close>

lemma or_else_idem: "or_else v (or_else v d) = or_else v d"
  by (cases v) (simp_all add: or_else_def)

lemma or_else_opt_idem: "or_else_opt v (or_else_opt v d) = or_else_opt v d"
  by (cases v) (simp_all add: or_else_opt_def)

lemma Object_assign_idem: "Object_assign (Object_assign k p) p = Object_assign k p"
  by (simp add: Object_assign_def or_else_idem or_else_opt_idem)

lemma hash_Object_assign: "hash (Object_assign k p) = or_else (set_hash p) (hash k)"
  by (simp add: Object_assign_def)

lemma update_Nil: "update h p [] = []"
  by (simp add: update_def)

lemma update_Cons:
  "update h p (k # ks) = (if hash k = h then Object_assign k p # ks else k # update h p ks)"
  by (simp add: update_def split: option.splits)

lemma find_index_None: "find_index h ks = None \<longleftrightarrow> h \<notin> set (map hash ks)"
  by (induction ks) auto

lemma find_index_Some:
  "find_index h ks = Some i \<Longrightarrow> i < length ks \<and> hash (ks ! i) = h"
  by (induction ks arbitrary: i) (auto split: if_splits)

lemma find_index_exists:
  "i < length ks \<Longrightarrow> hash (ks ! i) = h \<Longrightarrow> \<exists>j. find_index h ks = Some j"
  using find_index_None [of h ks] by (cases "find_index h ks") auto

lemma update_unknown: "h \<notin> set (map hash ks) \<Longrightarrow> update h p ks = ks"
  using find_index_None [of h ks] by (simp add: update_def)

lemma update_idem:
  "set_hash p = None \<or> set_hash p = Some h \<or> distinct (map hash ks) \<Longrightarrow>
   update h p (update h p ks) = update h p ks"
proof (induction ks)
  case Nil
  show ?case by (simp add: update_Nil)
next
  case (Cons k ks)
  show ?case
  proof (cases "hash k = h")
    case False
    with Cons show ?thesis by (auto simp: update_Cons)
  next
    case True
    show ?thesis
    proof (cases "or_else (set_hash p) (hash k) = h")
      case same: True
      with True show ?thesis
        by (simp add: update_Cons hash_Object_assign Object_assign_idem)
    next
      case other: False
      with True Cons.prems have "distinct (map hash (k # ks))"
        by (auto simp: or_else_def)
      with True have "h \<notin> set (map hash ks)" by auto
      with True other show ?thesis
        by (simp add: update_Cons hash_Object_assign update_unknown)
    qed
  qed
qed

text \<open>
  C9, as the claim states it, fails: the patch may carry the \<^verbatim>\<open>hash\<close> property
  itself. With a secret configured twice (two keys of hash \<open>h\<close>) and the patch
  \<^verbatim>\<open>{hash: "g"}\<close>, the first \<^verbatim>\<open>update("h", p)\<close> renames the first key and the
  second call renames the other one.
\<close>

theorem update_twice_counterexample:
  "update ''h'' (no_patch\<lparr>set_hash := Some ''g''\<rparr>)
     (update ''h'' (no_patch\<lparr>set_hash := Some ''g''\<rparr>)
        [new_key ''sk-1'' ''h'', new_key ''sk-1'' ''h''])
   \<noteq> update ''h'' (no_patch\<lparr>set_hash := Some ''g''\<rparr>)
        [new_key ''sk-1'' ''h'', new_key ''sk-1'' ''h'']"
  by (simp add: update_Cons update_Nil hash_Object_assign no_patch_def new_key_def
      or_else_def Object_assign_def)

text \<open>
  C9, amended: \<^verbatim>\<open>update(h, p)\<close> twice leaves the keys as a single
  \<^verbatim>\<open>update(h, p)\<close> does whenever the patch does not change the hash (it has no
  \<^verbatim>\<open>hash\<close> property, or its hash is \<open>h\<close>) or the hashes of the pool are pairwise
  distinct; and \<^verbatim>\<open>update\<close> with a hash that no key has changes nothing.
\<close>

theorem update_idempotent:
  "(set_hash p = None \<or> set_hash p = Some h \<or> distinct (map hash ks) \<longrightarrow>
      update h p (update h p ks) = update h p ks)
   \<and> (h \<notin> set (map hash ks) \<longrightarrow> update h p ks = ks)"
  using update_idem [of p h ks] update_unknown [of h ks p] by blast

theorem update_idempotent_witness:
  "set_hash (no_patch\<lparr>set_isOverQuota := Some True\<rparr>) = None
   \<and> update ''a'' (no_patch\<lparr>set_isOverQuota := Some True\<rparr>)
        (update ''a'' (no_patch\<lparr>set_isOverQuota := Some True\<rparr>) [key_a, key_b])
      = update ''a'' (no_patch\<lparr>set_isOverQuota := Some True\<rparr>) [key_a, key_b]
   \<and> ''c'' \<notin> set (map hash [key_a, key_b])
   \<and> update ''c'' (no_patch\<lparr>set_isOverQuota := Some True\<rparr>) [key_a, key_b] = [key_a, key_b]"
  using update_idempotent [of "no_patch\<lparr>set_isOverQuota := Some True\<rparr>" "''a''" "[key_a, key_b]"]
    update_idempotent [of "no_patch\<lparr>set_isOverQuota := Some True\<rparr>" "''c''" "[key_a, key_b]"]
  by (simp add: no_patch_def key_a_def key_b_def new_key_def)

lemma length_availableKeys: "length (availableKeys ks) = available ks"
proof -
  have "filter (\<lambda>k. \<not> isDisabled k) (map (nth ks) [0 ..< length ks]) =
        map (nth ks) (filter (\<lambda>i. \<not> isDisabled (ks ! i)) [0 ..< length ks])"
    by (simp add: filter_map comp_def)
  then have "length (filter (\<lambda>k. \<not> isDisabled k) ks) = length (availableKeys ks)"
    by (simp add: availableKeys_def map_nth)
  then show ?thesis by (simp add: available_def)
qed

lemma availableKeys_nth:
  assumes "pick < length (availableKeys ks)"
  shows "availableKeys ks ! pick < length ks \<and> \<not> isDisabled (ks ! (availableKeys ks ! pick))"
proof -
  from assms have "availableKeys ks ! pick \<in> set (availableKeys ks)" by simp
  then show ?thesis by (simp add: availableKeys_def)
qed

lemma get_picks:
  assumes "pick < available ks"
  defines "i \<equiv> availableKeys ks ! pick"
  shows "\<exists>ks'. get pick t1 t2 m ks = Inr (ks' ! i, ks') \<and> length ks' = length ks \<and>
           i < length ks \<and> \<not> isDisabled (ks ! i) \<and>
           hash (ks' ! i) = hash (ks ! i) \<and> key (ks' ! i) = key (ks ! i) \<and>
           lastUsed (ks' ! i) = t1 \<and> \<not> isDisabled (ks' ! i)"
proof -
  from assms have p: "pick < length (availableKeys ks)" by (simp add: length_availableKeys)
  from availableKeys_nth [OF p] have i: "i < length ks" and en: "\<not> isDisabled (ks ! i)"
    by (simp_all add: i_def)
  define ks1 where "ks1 = ks[i := (ks ! i)\<lparr>lastUsed := t1\<rparr>]"
  have l1: "length ks1 = length ks" by (simp add: ks1_def)
  from find_index_exists [of i ks1 "hash (ks1 ! i)"] i l1
  obtain j where j: "find_index (hash (ks1 ! i)) ks1 = Some j" by auto
  from find_index_Some [OF j] have jl: "j < length ks1" by simp
  define ks2 where "ks2 = ks1[j := (ks1 ! j)\<lparr>rateLimitedAt := t2,
       rateLimitedUntil := max (rateLimitedUntil (ks1 ! j)) (t2 + KEY_REUSE_DELAY)\<rparr>]"
  have th: "throttle t2 (hash (ks1 ! i)) ks1 = Inr ks2"
    using j by (simp add: throttle_def ks2_def Let_def)
  from p have ne: "availableKeys ks \<noteq> []" by auto
  have g: "get pick t1 t2 m ks = Inr (ks2 ! i, ks2)"
    using p ne th by (simp add: get_def Let_def i_def [symmetric] ks1_def [symmetric])
  have f: "hash (ks2 ! i) = hash (ks ! i) \<and> key (ks2 ! i) = key (ks ! i) \<and>
        lastUsed (ks2 ! i) = t1 \<and> \<not> isDisabled (ks2 ! i)"
    using i jl en l1 by (cases "i = j") (simp_all add: ks2_def ks1_def)
  have "length ks2 = length ks" by (simp add: ks2_def l1)
  with g f i en show ?thesis by blast
qed

lemma get_none: "available ks = 0 \<Longrightarrow> get pick t1 t2 m ks = Inl NoKeysAvailable"
  using length_availableKeys [of ks] by (simp add: get_def)

text \<open>
  C1, as the claim states it, fails: with two enabled keys that are not rate-limited,
  \<open>key_b\<close> used less recently than \<open>key_a\<close>, and the random index 0, \<^verbatim>\<open>get\<close>
  returns \<open>key_a\<close>, the first of the pool, although \<open>key_b\<close> is eligible and is the
  least recently used.
\<close>

theorem get_lru_counterexample:
  "get 0 100 100 ''moonshot-v1-8k'' [key_a, key_b] =
     Inr (key_a\<lparr>lastUsed := 100, rateLimitedAt := 100, rateLimitedUntil := 600\<rparr>,
          [key_a\<lparr>lastUsed := 100, rateLimitedAt := 100, rateLimitedUntil := 600\<rparr>, key_b])
   \<and> spec_eligible 100 ''moonshot'' key_a
   \<and> spec_eligible 100 ''moonshot'' key_b
   \<and> lastUsed key_b < lastUsed key_a"
  by (simp add: get_def availableKeys_def throttle_def key_a_def key_b_def new_key_def
      spec_eligible_def KEY_REUSE_DELAY_def Let_def upt_rec)

text \<open>
  C1, amended: \<^verbatim>\<open>get(model)\<close> does not look at \<^verbatim>\<open>lastUsed\<close> or at the order
  of the hashes. When every key is disabled it fails with "No Moonshot keys available".
  When there are keys that are not disabled and each of them is eligible (none is
  rate-limited or lacks the family), it takes the key at a random index among them
  (\<open>pick\<close>, below their number), stamps \<^verbatim>\<open>lastUsed\<close> on the pool's record and
  returns a copy of that record: an eligible key of the pool, with the same secret and
  hash.
\<close>

theorem get_returns_enabled_key:
  "(available ks = 0 \<longrightarrow> get pick t_used t_throttle m ks = Inl NoKeysAvailable)
   \<and> ((\<forall>k \<in> set ks. \<not> isDisabled k \<longrightarrow> spec_eligible t_used fam k) \<and> pick < available ks \<longrightarrow>
        (\<exists>ks'. get pick t_used t_throttle m ks = Inr (ks' ! (availableKeys ks ! pick), ks') \<and>
           length ks' = length ks \<and>
           availableKeys ks ! pick < length ks \<and>
           spec_eligible t_used fam (ks ! (availableKeys ks ! pick)) \<and>
           hash (ks' ! (availableKeys ks ! pick)) = hash (ks ! (availableKeys ks ! pick)) \<and>
           key (ks' ! (availableKeys ks ! pick)) = key (ks ! (availableKeys ks ! pick)) \<and>
           lastUsed (ks' ! (availableKeys ks ! pick)) = t_used \<and>
           \<not> isDisabled (ks' ! (availableKeys ks ! pick))))"
proof (intro conjI impI)
  assume "available ks = 0"
  then show "get pick t_used t_throttle m ks = Inl NoKeysAvailable"
    by (rule get_none)
next
  assume a: "(\<forall>k \<in> set ks. \<not> isDisabled k \<longrightarrow> spec_eligible t_used fam k) \<and> pick < available ks"
  from get_picks [of pick ks t_used t_throttle m] a
  obtain ks' where g: "get pick t_used t_throttle m ks = Inr (ks' ! (availableKeys ks ! pick), ks')"
    "length ks' = length ks" "availableKeys ks ! pick < length ks"
    "\<not> isDisabled (ks ! (availableKeys ks ! pick))"
    "hash (ks' ! (availableKeys ks ! pick)) = hash (ks ! (availableKeys ks ! pick))"
    "key (ks' ! (availableKeys ks ! pick)) = key (ks ! (availableKeys ks ! pick))"
    "lastUsed (ks' ! (availableKeys ks ! pick)) = t_used"
    "\<not> isDisabled (ks' ! (availableKeys ks ! pick))"
    by blast
  from g(3) have "ks ! (availableKeys ks ! pick) \<in> set ks" by simp
  with a g(4) have "spec_eligible t_used fam (ks ! (availableKeys ks ! pick))" by blast
  with g show "\<exists>ks'. get pick t_used t_throttle m ks = Inr (ks' ! (availableKeys ks ! pick), ks') \<and>
           length ks' = length ks \<and>
           availableKeys ks ! pick < length ks \<and>
           spec_eligible t_used fam (ks ! (availableKeys ks ! pick)) \<and>
           hash (ks' ! (availableKeys ks ! pick)) = hash (ks ! (availableKeys ks ! pick)) \<and>
           key (ks' ! (availableKeys ks ! pick)) = key (ks ! (availableKeys ks ! pick)) \<and>
           lastUsed (ks' ! (availableKeys ks ! pick)) = t_used \<and>
           \<not> isDisabled (ks' ! (availableKeys ks ! pick))"
    by blast
qed

theorem get_returns_enabled_key_witness:
  "available [key_a\<lparr>isDisabled := True\<rparr>] = 0
   \<and> get 0 100 100 ''kimi-k2'' [key_a\<lparr>isDisabled := True\<rparr>] = Inl NoKeysAvailable
   \<and> isDisabled (key_a\<lparr>isDisabled := True\<rparr>)
   \<and> spec_eligible 100 ''moonshot'' key_b
   \<and> 0 < available [key_a\<lparr>isDisabled := True\<rparr>, key_b]
   \<and> availableKeys [key_a\<lparr>isDisabled := True\<rparr>, key_b] ! 0 = 1
   \<and> (\<exists>ks'. get 0 100 100 ''kimi-k2'' [key_a\<lparr>isDisabled := True\<rparr>, key_b] = Inr (ks' ! 1, ks') \<and>
         hash (ks' ! 1) = hash key_b \<and> lastUsed (ks' ! 1) = 100)"
proof -
  have a: "available [key_a\<lparr>isDisabled := True\<rparr>] = 0"
    by (simp add: available_def)
  have b: "0 < available [key_a\<lparr>isDisabled := True\<rparr>, key_b]"
    by (simp add: available_def key_b_def new_key_def)
  have c: "availableKeys [key_a\<lparr>isDisabled := True\<rparr>, key_b] ! 0 = 1"
    by (simp add: availableKeys_def key_b_def new_key_def upt_rec)
  have d: "\<forall>k \<in> set [key_a\<lparr>isDisabled := True\<rparr>, key_b].
         \<not> isDisabled k \<longrightarrow> spec_eligible 100 ''moonshot'' k"
    by (simp add: spec_eligible_def key_b_def new_key_def)
  from a b c d
    get_returns_enabled_key [of "[key_a\<lparr>isDisabled := True\<rparr>]" 0 100 100 "''kimi-k2''"]
    get_returns_enabled_key [of "[key_a\<lparr>isDisabled := True\<rparr>, key_b]" 0 100 100 "''kimi-k2''"
      "''moonshot''"]
  show ?thesis by auto
qed

text \<open>
  C2: the code does not keep the lockout. \<^verbatim>\<open>markRateLimited\<close> of \<open>key_a\<close> at time
  1000 sets \<^verbatim>\<open>rateLimitedUntil\<close> to 3000; \<^verbatim>\<open>get\<close> at time 1100, with the random
  index 0, returns \<open>key_a\<close> all the same, since its filter reads \<^verbatim>\<open>isDisabled\<close> only.
\<close>

theorem get_ignores_lockout:
  "markRateLimited 1000 ''a'' [key_a, key_b] =
     Inr [key_a\<lparr>rateLimitedAt := 1000, rateLimitedUntil := 1000 + RATE_LIMIT_LOCKOUT\<rparr>, key_b]
   \<and> get 0 1100 1100 ''moonshot-v1-8k''
        [key_a\<lparr>rateLimitedAt := 1000, rateLimitedUntil := 1000 + RATE_LIMIT_LOCKOUT\<rparr>, key_b]
      = Inr (key_a\<lparr>lastUsed := 1100, rateLimitedAt := 1100, rateLimitedUntil := 3000\<rparr>,
             [key_a\<lparr>lastUsed := 1100, rateLimitedAt := 1100, rateLimitedUntil := 3000\<rparr>, key_b])
   \<and> (1100::int) < 1000 + RATE_LIMIT_LOCKOUT"
  by (simp add: markRateLimited_def get_def availableKeys_def throttle_def key_a_def key_b_def
      new_key_def RATE_LIMIT_LOCKOUT_def KEY_REUSE_DELAY_def Let_def upt_rec)

lemma assign_isRevoked:
  "Object_assign k (no_patch\<lparr>set_isRevoked := Some b\<rparr>) = k\<lparr>isRevoked := b\<rparr>"
  by (simp add: Object_assign_def no_patch_def or_else_def or_else_opt_def)

lemma assign_isOverQuota:
  "Object_assign k (no_patch\<lparr>set_isOverQuota := Some b\<rparr>) = k\<lparr>isOverQuota := b\<rparr>"
  by (simp add: Object_assign_def no_patch_def or_else_def or_else_opt_def)

lemma find_index_list_update:
  "find_index h ks = Some j \<Longrightarrow> hash x = h \<Longrightarrow> find_index h (ks[j := x]) = Some j"
proof (induction ks arbitrary: j)
  case Nil
  then show ?case by simp
next
  case (Cons a as)
  then show ?case by (cases j) (auto split: if_splits)
qed

text \<open>
  \<^verbatim>\<open>KeyPool.disable\<close> on a key of the Moonshot provider leaves the pool's key of
  that hash disabled, revoked exactly for the reason "revoked" and over quota exactly
  for the reason "quota": after it, a revoked key is a disabled key.
\<close>

lemma KeyPool_disable_moonshot:
  assumes "service k = svc_moonshot"
    and "getKeyProvider svc_moonshot ps = Some i"
    and "find_index (hash k) (keys (ps ! i)) = Some j"
  shows "KeyPool_disable k reason ps =
     Inr (ps[i := (ps ! i)\<lparr>keys := (keys (ps ! i))[j := (keys (ps ! i) ! j)
            \<lparr>isDisabled := True, isRevoked := (reason = revoked),
             isOverQuota := (reason = quota)\<rparr>]\<rparr>])"
proof -
  let ?ks = "keys (ps ! i)"
  from find_index_Some [OF assms(3)] have j: "j < length ?ks" "hash (?ks ! j) = hash k"
    by simp_all
  have d: "disable k ?ks = ?ks[j := (?ks ! j)\<lparr>isDisabled := True\<rparr>]"
    using assms(3) by (simp add: disable_def)
  have f: "\<And>x. hash x = hash k \<Longrightarrow> find_index (hash k) (?ks[j := x]) = Some j"
    using assms(3) by (simp add: find_index_list_update)
  have u1: "update (hash k) (no_patch\<lparr>set_isRevoked := Some (reason = revoked)\<rparr>)
              (?ks[j := (?ks ! j)\<lparr>isDisabled := True\<rparr>])
            = ?ks[j := (?ks ! j)\<lparr>isDisabled := True, isRevoked := (reason = revoked)\<rparr>]"
    using j f [of "(?ks ! j)\<lparr>isDisabled := True\<rparr>"]
    by (simp add: update_def assign_isRevoked)
  have u2: "update (hash k) (no_patch\<lparr>set_isOverQuota := Some (reason = quota)\<rparr>)
              (?ks[j := (?ks ! j)\<lparr>isDisabled := True, isRevoked := (reason = revoked)\<rparr>])
            = ?ks[j := (?ks ! j)\<lparr>isDisabled := True, isRevoked := (reason = revoked),
                                 isOverQuota := (reason = quota)\<rparr>]"
    using j f [of "(?ks ! j)\<lparr>isDisabled := True, isRevoked := (reason = revoked)\<rparr>"]
    by (simp add: update_def assign_isOverQuota)
  show ?thesis
    using assms(1,2) d u1 u2
    by (simp add: KeyPool_disable_def on_provider_def provider_disable_def provider_update_def
        has_isOverQuota_update_def Let_def)
qed

text \<open>
  C5: the code breaks the invariant. \<^verbatim>\<open>KeyPool.disable(key, "revoked")\<close> leaves
  \<open>key_a\<close> disabled and revoked; the recheck of the Moonshot provider then writes
  \<^verbatim>\<open>isDisabled: false\<close> and leaves \<^verbatim>\<open>isRevoked\<close> as it is, so the key is revoked
  and not disabled.
\<close>

theorem recheck_enables_revoked_key:
  "KeyPool_disable key_a revoked moonshot_pool =
     Inr [\<lparr>provider_service = svc_openai, keys = []\<rparr>,
          \<lparr>provider_service = svc_moonshot,
           keys = [key_a\<lparr>isDisabled := True, isRevoked := True\<rparr>]\<rparr>]
   \<and> KeyPool_recheck_moonshot True True
        [\<lparr>provider_service = svc_openai, keys = []\<rparr>,
         \<lparr>provider_service = svc_moonshot,
          keys = [key_a\<lparr>isDisabled := True, isRevoked := True\<rparr>]\<rparr>]
      = Inr [\<lparr>provider_service = svc_openai, keys = []\<rparr>,
             \<lparr>provider_service = svc_moonshot,
              keys = [key_a\<lparr>isDisabled := False, isRevoked := True\<rparr>]\<rparr>]"
  by (simp add: KeyPool_disable_def KeyPool_recheck_moonshot_def on_provider_def
      moonshot_pool_def provider_disable_def provider_update_def disable_def update_def
      recheck_def recheck_patch_def has_isOverQuota_update_def Object_assign_def or_else_def
      or_else_opt_def no_patch_def key_a_def new_key_def Let_def upt_rec)


section \<open>Properties of the model families and of the context validation\<close>

lemma first_match_in: "first_match xs s = Some v \<Longrightarrow> v \<in> snd ` set xs"
  by (induction xs) (auto split: if_splits)

lemma openai_family_not_xai: "getOpenAIModelFamily m \<noteq> ''xai''"
proof -
  have a: "''xai'' \<notin> snd ` set OPENAI_MODEL_FAMILY_MAP"
    by (simp add: OPENAI_MODEL_FAMILY_MAP_def)
  show ?thesis
    using a first_match_in [of OPENAI_MODEL_FAMILY_MAP m]
    by (auto simp: getOpenAIModelFamily_def getOpenAIModelFamily_default_def
        split: option.splits)
qed

text \<open>No pattern of the map matches a name that starts with "grok".\<close>

lemma grok_no_match: "first_match OPENAI_MODEL_FAMILY_MAP (''grok'' @ s) = None"
  by (simp add: OPENAI_MODEL_FAMILY_MAP_def rx_test_def)

lemma grok_family: "getOpenAIModelFamily (''grok'' @ s) = ''gpt4''"
  using grok_no_match [of s]
  by (simp add: getOpenAIModelFamily_def getOpenAIModelFamily_default_def)

lemma openai_family_not_empty: "getOpenAIModelFamily m \<noteq> []"
proof -
  have a: "[] \<notin> snd ` set OPENAI_MODEL_FAMILY_MAP"
    by (simp add: OPENAI_MODEL_FAMILY_MAP_def)
  show ?thesis
    using a first_match_in [of OPENAI_MODEL_FAMILY_MAP m]
    by (auto simp: getOpenAIModelFamily_def getOpenAIModelFamily_default_def
        split: option.splits)
qed

text \<open>
  C8: for every request with service xai and outbound API openai,
  \<^verbatim>\<open>getModelFamilyForRequest\<close> returns \<^verbatim>\<open>getOpenAIModelFamily\<close> of the body's
  model (of \<^verbatim>\<open>"gpt-3.5-turbo"\<close> when the body has none), which is the default
  \<^verbatim>\<open>"gpt4"\<close> for a model whose name starts with "grok", and never \<^verbatim>\<open>"xai"\<close>.

  \<^verbatim>\<open>req.modelFamily\<close> is assigned at line 432 only, by this function. So on a request
  it is absent (or falsy: the empty string), or it is the family that an earlier call
  stored for this request. The theorem covers both, the first call and every later
  one: the request that a call leaves has the same service, API and model and has the
  returned family stored, hence is again a request of the theorem, and the next call
  returns the same family.
\<close>

theorem xai_request_family:
  assumes "req_service req = svc_xai" and "outboundApi req = api_openai"
    and "modelFamily req = None \<or> modelFamily req = Some [] \<or>
         modelFamily req = Some (getOpenAIModelFamily
           (case body_model req of None \<Rightarrow> ''gpt-3.5-turbo'' | Some m \<Rightarrow> m))"
  shows "fst (getModelFamilyForRequest req) =
           getOpenAIModelFamily (case body_model req of None \<Rightarrow> ''gpt-3.5-turbo'' | Some m \<Rightarrow> m)
         \<and> fst (getModelFamilyForRequest req) \<noteq> ''xai''
         \<and> (\<forall>s. body_model req = Some (''grok'' @ s) \<longrightarrow>
               fst (getModelFamilyForRequest req) = ''gpt4'')
         \<and> snd (getModelFamilyForRequest req) =
             req\<lparr>modelFamily := Some (fst (getModelFamilyForRequest req))\<rparr>
         \<and> req_service (snd (getModelFamilyForRequest req)) = svc_xai
         \<and> outboundApi (snd (getModelFamilyForRequest req)) = api_openai
         \<and> modelFamily (snd (getModelFamilyForRequest req)) =
             Some (getOpenAIModelFamily
               (case body_model (snd (getModelFamilyForRequest req)) of
                  None \<Rightarrow> ''gpt-3.5-turbo'' | Some m \<Rightarrow> m))
         \<and> fst (getModelFamilyForRequest (snd (getModelFamilyForRequest req))) =
             fst (getModelFamilyForRequest req)"
proof -
  let ?fam = "getOpenAIModelFamily
      (case body_model req of None \<Rightarrow> ''gpt-3.5-turbo'' | Some m \<Rightarrow> m)"
  have ne: "?fam \<noteq> []" by (rule openai_family_not_empty)
  have stored: "modelFamily req = Some ?fam \<Longrightarrow> req\<lparr>modelFamily := Some ?fam\<rparr> = req"
    by simp
  have f: "getModelFamilyForRequest req = (?fam, req\<lparr>modelFamily := Some ?fam\<rparr>)"
    using assms(3)
  proof (elim disjE)
    assume "modelFamily req = None"
    with assms(1,2) show ?thesis by (simp add: getModelFamilyForRequest_def Let_def)
  next
    assume "modelFamily req = Some []"
    with assms(1,2) show ?thesis by (simp add: getModelFamilyForRequest_def Let_def)
  next
    assume a: "modelFamily req = Some ?fam"
    with ne have "getModelFamilyForRequest req = (?fam, req)"
      by (simp add: getModelFamilyForRequest_def)
    with stored [OF a] show ?thesis by simp
  qed
  have f2: "getModelFamilyForRequest (req\<lparr>modelFamily := Some ?fam\<rparr>) =
      (?fam, req\<lparr>modelFamily := Some ?fam\<rparr>)"
    using ne by (simp add: getModelFamilyForRequest_def)
  have g: "\<forall>s. body_model req = Some (''grok'' @ s) \<longrightarrow> ?fam = ''gpt4''"
    using grok_family by (auto simp del: append.simps)
  from f f2 g assms(1,2) openai_family_not_xai [of
      "case body_model req of None \<Rightarrow> ''gpt-3.5-turbo'' | Some m \<Rightarrow> m"]
  show ?thesis by simp
qed

theorem xai_request_family_witness:
  "req_service grok_request = svc_xai \<and> outboundApi grok_request = api_openai
   \<and> modelFamily grok_request = None \<and> body_model grok_request = Some ''grok-3''
   \<and> fst (getModelFamilyForRequest grok_request) = ''gpt4''
   \<and> snd (getModelFamilyForRequest grok_request) = grok_request\<lparr>modelFamily := Some ''gpt4''\<rparr>
   \<and> fst (getModelFamilyForRequest (grok_request\<lparr>modelFamily := Some ''gpt4''\<rparr>)) = ''gpt4''"
proof -
  have a: "req_service grok_request = svc_xai" "outboundApi grok_request = api_openai"
    "modelFamily grok_request = None" "body_model grok_request = Some (''grok'' @ ''-3'')"
    by (simp_all add: grok_request_def)
  from a(3) have d: "modelFamily grok_request = None \<or> modelFamily grok_request = Some [] \<or>
         modelFamily grok_request = Some (getOpenAIModelFamily
           (case body_model grok_request of None \<Rightarrow> ''gpt-3.5-turbo'' | Some m \<Rightarrow> m))"
    by simp
  from xai_request_family [OF a(1) a(2) d] a(4)
  have b: "fst (getModelFamilyForRequest grok_request) = ''gpt4''"
    and c: "snd (getModelFamilyForRequest grok_request) =
             grok_request\<lparr>modelFamily := Some (fst (getModelFamilyForRequest grok_request))\<rparr>"
    and e: "fst (getModelFamilyForRequest (snd (getModelFamilyForRequest grok_request))) =
             fst (getModelFamilyForRequest grok_request)"
    by blast+
  from b c e a show ?thesis by simp
qed

text \<open>No window of the table is above 1024000.\<close>

lemma modelMax_for_le: "modelMax_for model \<le> 1024000"
  by (simp add: modelMax_for_def MISTRAL_AI_MAX_CONTENT_def)

lemma modelMax_gpt4o: "modelMax_for ''gpt-4o'' = 128000"
  by (simp add: modelMax_for_def rx_test_def)

text \<open>
  C3, as the claim states it, fails: for a user of type \<^verbatim>\<open>"special"\<close> the limit of
  the proxy is not enforced. With an OpenAI limit of 32768 tokens, the request for
  \<^verbatim>\<open>gpt-4o\<close> (window 128000) with 50000 + 1000 tokens passes, although 51000 is
  above the minimum of the two.
\<close>

theorem special_user_counterexample:
  "validateContextSize cfg_32k special_request =
     Inr (special_request\<lparr>tokenizerInfo :=
            \<lparr>prompt_tokens = Some 50000, completion_tokens = Some 1000,
             max_model_tokens = Some 128000, max_proxy_tokens = Some MAX_SAFE_INTEGER\<rparr>\<rparr>)
   \<and> configured_proxyMax cfg_32k (outboundApi special_request) = Some 32768
   \<and> modelMax_for ''gpt-4o'' = 128000
   \<and> \<not> (50000 + 1000 \<le> min (128000::int) 32768)"
  by (simp add: validateContextSize_def assertRequestHasTokenCounts_def configured_proxyMax_def
      enforced_proxyMax_def cfg_32k_def special_request_def no_tokenizerInfo_def
      modelMax_gpt4o MAX_SAFE_INTEGER_def)

text \<open>
  C3, amended: a request whose outbound API is not \<^verbatim>\<open>openai-image\<close> and that passes
  \<^verbatim>\<open>validateContextSize\<close> has promptTokens + outputTokens at most the minimum of
  the model's context window (chosen by the ordered table of patterns) and the enforced
  limit of the proxy, which is the configured limit of the outbound API, replaced by
  \<^verbatim>\<open>Number.MAX_SAFE_INTEGER\<close> when that limit is 0 or the user is of type
  \<^verbatim>\<open>"special"\<close>, so that the sum is at most 1024000, the largest window; a request
  with valid token counts above this bound fails with the context-size error, which
  reports the limit and the two counts; a request whose outbound API is
  \<^verbatim>\<open>openai-image\<close> passes with no bound on its size.
\<close>

theorem validateContextSize_bound:
  "(outboundApi req \<noteq> api_openai_image \<and> validateContextSize cfg req = Inr r \<longrightarrow>
      (\<exists>pt ot c m. promptTokens req = Some pt \<and> outputTokens req = Some ot \<and>
         configured_proxyMax cfg (outboundApi req) = Some c \<and> body_model req = Some m \<and>
         pt + ot \<le> min (modelMax_for m) (enforced_proxyMax c (user_type req)) \<and>
         pt + ot \<le> 1024000))
   \<and> (promptTokens req = Some pt \<and> outputTokens req = Some ot \<and> 1 \<le> pt \<and> 1 \<le> ot \<and>
        configured_proxyMax cfg (outboundApi req) = Some c \<and> body_model req = Some m \<and>
        min (modelMax_for m) (enforced_proxyMax c (user_type req)) < pt + ot \<longrightarrow>
        validateContextSize cfg req =
          Inl (ContextTooLarge (min (enforced_proxyMax c (user_type req)) (modelMax_for m)) pt ot))
   \<and> (outboundApi req = api_openai_image \<and> promptTokens req = Some pt \<and>
        outputTokens req = Some ot \<and> 1 \<le> pt \<and> 1 \<le> ot \<longrightarrow>
        validateContextSize cfg req = Inr req)"
proof (intro conjI impI)
  assume a: "outboundApi req \<noteq> api_openai_image \<and> validateContextSize cfg req = Inr r"
  then obtain c where c: "configured_proxyMax cfg (outboundApi req) = Some c"
    by (cases "outboundApi req") (simp_all add: configured_proxyMax_def)
  from a c obtain pt ot m where
    b: "promptTokens req = Some pt" "outputTokens req = Some ot" "body_model req = Some m"
       "pt + ot \<le> min (modelMax_for m) (enforced_proxyMax c (user_type req))"
    by (auto simp: validateContextSize_def assertRequestHasTokenCounts_def Let_def min_def
        split: option.splits if_splits)
  from b(4) modelMax_for_le [of m] have "pt + ot \<le> 1024000" by simp
  with b c show "\<exists>pt ot c m. promptTokens req = Some pt \<and> outputTokens req = Some ot \<and>
         configured_proxyMax cfg (outboundApi req) = Some c \<and> body_model req = Some m \<and>
         pt + ot \<le> min (modelMax_for m) (enforced_proxyMax c (user_type req)) \<and>
         pt + ot \<le> 1024000"
    by blast
next
  assume "promptTokens req = Some pt \<and> outputTokens req = Some ot \<and> 1 \<le> pt \<and> 1 \<le> ot \<and>
        configured_proxyMax cfg (outboundApi req) = Some c \<and> body_model req = Some m \<and>
        min (modelMax_for m) (enforced_proxyMax c (user_type req)) < pt + ot"
  then show "validateContextSize cfg req =
          Inl (ContextTooLarge (min (enforced_proxyMax c (user_type req)) (modelMax_for m)) pt ot)"
    by (simp add: validateContextSize_def assertRequestHasTokenCounts_def Let_def min.commute)
next
  assume "outboundApi req = api_openai_image \<and> promptTokens req = Some pt \<and>
        outputTokens req = Some ot \<and> 1 \<le> pt \<and> 1 \<le> ot"
  then show "validateContextSize cfg req = Inr req"
    by (simp add: validateContextSize_def assertRequestHasTokenCounts_def configured_proxyMax_def)
qed

theorem validateContextSize_bound_witness:
  "validateContextSize cfg_32k (special_request\<lparr>user_type := None, promptTokens := Some 30000\<rparr>) =
     Inr (special_request\<lparr>user_type := None, promptTokens := Some 30000, tokenizerInfo :=
            \<lparr>prompt_tokens = Some 30000, completion_tokens = Some 1000,
             max_model_tokens = Some 128000, max_proxy_tokens = Some 32768\<rparr>\<rparr>)
   \<and> (30000::int) + 1000 \<le> min (modelMax_for ''gpt-4o'') (enforced_proxyMax 32768 None)
   \<and> validateContextSize cfg_32k (special_request\<lparr>user_type := None\<rparr>) =
       Inl (ContextTooLarge 32768 50000 1000)
   \<and> validateContextSize cfg_32k (special_request\<lparr>outboundApi := api_openai_image\<rparr>) =
       Inr (special_request\<lparr>outboundApi := api_openai_image\<rparr>)"
proof -
  let ?ok = "special_request\<lparr>user_type := None, promptTokens := Some 30000\<rparr>"
  let ?big = "special_request\<lparr>user_type := None\<rparr>"
  let ?img = "special_request\<lparr>outboundApi := api_openai_image\<rparr>"
  have v: "validateContextSize cfg_32k ?ok =
     Inr (?ok\<lparr>tokenizerInfo :=
            \<lparr>prompt_tokens = Some 30000, completion_tokens = Some 1000,
             max_model_tokens = Some 128000, max_proxy_tokens = Some 32768\<rparr>\<rparr>)"
    by (simp add: validateContextSize_def assertRequestHasTokenCounts_def configured_proxyMax_def
        enforced_proxyMax_def cfg_32k_def special_request_def no_tokenizerInfo_def modelMax_gpt4o)
  have e: "enforced_proxyMax 32768 None = 32768"
    by (simp add: enforced_proxyMax_def)
  have b1: "30000 + 1000 \<le> min (modelMax_for ''gpt-4o'') (enforced_proxyMax 32768 None)"
    using validateContextSize_bound [of ?ok cfg_32k _ 30000 1000 32768 "''gpt-4o''"] v
    by (auto simp: special_request_def cfg_32k_def configured_proxyMax_def)
  have b2: "validateContextSize cfg_32k ?big = Inl (ContextTooLarge 32768 50000 1000)"
    using validateContextSize_bound [of ?big cfg_32k _ 50000 1000 32768 "''gpt-4o''"]
    by (simp add: special_request_def cfg_32k_def configured_proxyMax_def modelMax_gpt4o e)
  have b3: "validateContextSize cfg_32k ?img = Inr ?img"
    using validateContextSize_bound [of ?img cfg_32k _ 50000 1000]
    by (simp add: special_request_def)
  from v b1 b2 b3 show ?thesis by simp
qed


section \<open>Properties of the handlers of upstream errors\<close>

lemma getKeyProvider_Some:
  "getKeyProvider s ps = Some i \<Longrightarrow> i < length ps \<and> provider_service (ps ! i) = s"
  by (induction ps arbitrary: i) (auto split: if_splits)

lemma KeyPool_update_found:
  assumes "getKeyProvider (service k) ps = Some i"
    and "find_index (hash k) (keys (ps ! i)) = Some j"
    and "service k' = service k" and "hash k' = hash k"
  shows "KeyPool_update k' p ps =
     Inr (ps[i := (ps ! i)\<lparr>keys := (keys (ps ! i))[j := Object_assign (keys (ps ! i) ! j) p]\<rparr>])"
  using assms
  by (simp add: KeyPool_update_def on_provider_def provider_update_def update_def)

lemma assign_requiresPreamble:
  "Object_assign k (no_patch\<lparr>set_requiresPreamble := Some True\<rparr>) =
     k\<lparr>requiresPreamble := Some True\<rparr>"
  by (simp add: Object_assign_def no_patch_def or_else_def or_else_opt_def)

lemma assign_quota:
  "Object_assign k (no_patch\<lparr>set_modelFamilies := Some fs, set_isOverQuota := Some True,
                            set_overQuotaFamilies := Some os\<rparr>)
    = k\<lparr>modelFamilies := fs, isOverQuota := True, overQuotaFamilies := Some os\<rparr>"
  by (simp add: Object_assign_def no_patch_def or_else_def or_else_opt_def)

text \<open>
  C7: for a request of the Anthropic service whose key is in the pool, and an upstream
  error whose message starts with \<^verbatim>\<open>prompt must start with "\n\nHuman:" turn\<close>,
  \<^verbatim>\<open>handleAnthropicAwsBadRequestError\<close> throws the \<^verbatim>\<open>RetryableError\<close> after it
  has set \<^verbatim>\<open>requiresPreamble\<close> on the pool's key of that hash, changing nothing else
  in the pool (so the key is not disabled by it), and has re-enqueued the request.
\<close>

theorem missing_preamble_handled:
  assumes "req_key (request st) = Some k" and "service k = svc_anthropic"
    and "error_body (payload st) = Some b" and "err_message b = Some msg"
    and "startsWith msg missing_preamble_prefix"
    and "getKeyProvider svc_anthropic (pool st) = Some i"
    and "find_index (hash k) (keys (pool st ! i)) = Some j"
  shows "handleAnthropicAwsBadRequestError st =
           (Some (RetryableError ''Claude request re-enqueued to add preamble.''),
            st\<lparr> pool := (pool st)[i := (pool st ! i)\<lparr>keys :=
                   (keys (pool st ! i))[j := (keys (pool st ! i) ! j)\<lparr>requiresPreamble := Some True\<rparr>]\<rparr>],
                reenqueued := reenqueued st @ [request st] \<rparr>)
         \<and> hash (keys (pool st ! i) ! j) = hash k
         \<and> isDisabled ((keys (pool st ! i) ! j)\<lparr>requiresPreamble := Some True\<rparr>)
             = isDisabled (keys (pool st ! i) ! j)
         \<and> isRevoked ((keys (pool st ! i) ! j)\<lparr>requiresPreamble := Some True\<rparr>)
             = isRevoked (keys (pool st ! i) ! j)"
proof -
  from assms(2) assms(6) have gp: "getKeyProvider (service k) (pool st) = Some i" by simp
  show ?thesis
    using assms(1,3,4,5) find_index_Some [OF assms(7)]
      KeyPool_update_found [OF gp assms(7) refl refl,
        of "no_patch\<lparr>set_requiresPreamble := Some True\<rparr>"]
    by (simp add: handleAnthropicAwsBadRequestError_def reenqueueRequest_def
        assign_requiresPreamble)
qed

theorem missing_preamble_handled_witness:
  "handleAnthropicAwsBadRequestError preamble_state =
     (Some (RetryableError ''Claude request re-enqueued to add preamble.''),
      preamble_state\<lparr>
        pool := [\<lparr>provider_service = svc_anthropic,
                  keys = [anthropic_key\<lparr>requiresPreamble := Some True\<rparr>]\<rparr>],
        reenqueued := [request preamble_state] \<rparr>)
   \<and> isDisabled (anthropic_key\<lparr>requiresPreamble := Some True\<rparr>) = False"
proof -
  have a: "req_key (request preamble_state) = Some anthropic_key"
    "service anthropic_key = svc_anthropic"
    "error_body (payload preamble_state) =
       Some \<lparr> err_message = Some (missing_preamble_prefix @ '' after an optional system prompt''),
              err_status = None, err_json = '''' \<rparr>"
    "getKeyProvider svc_anthropic (pool preamble_state) = Some 0"
    "find_index (hash anthropic_key) (keys (pool preamble_state ! 0)) = Some 0"
    by (simp_all add: preamble_state_def anthropic_key_def new_key_def)
  have b: "startsWith (missing_preamble_prefix @ '' after an optional system prompt'')
             missing_preamble_prefix"
    by (simp add: missing_preamble_prefix_def dq_def)
  from missing_preamble_handled [OF a(1) a(2) a(3) _ b a(4) a(5)]
  show ?thesis
    by (simp add: preamble_state_def anthropic_key_def new_key_def)
qed

lemma key_dead_dead_msg: "key_dead (err_json (google_error dead_msg))"
  by code_simp

lemma quota_exhausted_dead_msg:
  "quota_exhausted (err_json (google_error dead_msg)) (errorMessage_of (google_error dead_msg))"
  by code_simp

lemma not_key_dead_quota_msg: "\<not> key_dead (err_json (google_error quota_msg))"
  by code_simp

lemma quota_exhausted_quota_msg:
  "quota_exhausted (err_json (google_error quota_msg)) (errorMessage_of (google_error quota_msg))"
  by code_simp

text \<open>
  C4, as the claim states it, fails: the handler looks for the signature of a blocked
  key first. A 429 \<^verbatim>\<open>RESOURCE_EXHAUSTED\<close> for \<^verbatim>\<open>gemini-1.5-pro\<close> whose text has a
  signature of an exhausted quota ("Quota exceeded") and also names the limit
  \<^verbatim>\<open>GenerateContentRequestsPerMinutePerProjectPerRegion\<close> disables the key as
  revoked, leaves its families as they are and does not re-enqueue the request.
\<close>

theorem blocked_key_counterexample:
  "handleGoogleAIRateLimitError 1000 (google_state dead_msg) =
     (None,
      (google_state dead_msg)\<lparr>
        pool := [\<lparr>provider_service = svc_google_ai,
                  keys = [google_key\<lparr>isDisabled := True, isRevoked := True\<rparr>]\<rparr>],
        payload := \<lparr>error_body = Some (google_error dead_msg),
                    proxy_note = Some ''Assigned API key cannot be used.''\<rparr>\<rparr>)
   \<and> reenqueued (google_state dead_msg) = []
   \<and> err_status (google_error dead_msg) = Some ''RESOURCE_EXHAUSTED''
   \<and> quota_exhausted (err_json (google_error dead_msg)) (errorMessage_of (google_error dead_msg))
   \<and> familyToRemove ''gemini-1.5-pro'' = Some ''gemini-pro''"
proof -
  have s: "err_status (google_error dead_msg) = Some ''RESOURCE_EXHAUSTED''"
    by (simp add: google_error_def)
  have f: "familyToRemove ''gemini-1.5-pro'' = Some ''gemini-pro''"
    by (simp add: familyToRemove_def)
  have h: "handleGoogleAIRateLimitError 1000 (google_state dead_msg) =
     (None,
      (google_state dead_msg)\<lparr>
        pool := [\<lparr>provider_service = svc_google_ai,
                  keys = [google_key\<lparr>isDisabled := True, isRevoked := True\<rparr>]\<rparr>],
        payload := \<lparr>error_body = Some (google_error dead_msg),
                    proxy_note = Some ''Assigned API key cannot be used.''\<rparr>\<rparr>)"
    using key_dead_dead_msg s
    by (simp add: handleGoogleAIRateLimitError_def google_state_def set_note_def
        KeyPool_disable_def on_provider_def provider_disable_def provider_update_def
        has_isOverQuota_update_def google_key_def new_key_def Object_assign_def or_else_def
        or_else_opt_def no_patch_def Let_def)
  have r: "reenqueued (google_state dead_msg) = []"
    by (simp add: google_state_def)
  from h r s f quota_exhausted_dead_msg show ?thesis by simp
qed

text \<open>
  C4, amended: for a Google AI request whose key is in the pool, where the request's
  copy of the key has the families and the over-quota families that the pool's key has
  now, and whose upstream response is a 429 \<^verbatim>\<open>RESOURCE_EXHAUSTED\<close> with a signature
  of an exhausted quota and without a signature of a blocked key, for a model whose
  name contains "pro", "flash" or "ultra" (the family, in this order of precedence):
  the handler removes that family, and only it, from the families of the pool's key,
  sets \<^verbatim>\<open>isOverQuota\<close> on it and adds the family to its over-quota families, which
  keep what they had; nothing else of the key and no other key changes (so the key is
  not disabled); and it re-enqueues the request and throws the \<^verbatim>\<open>RetryableError\<close>.
\<close>

theorem quota_exhausted_handled:
  assumes "req_key (request st) = Some k" and "service k = svc_google_ai"
    and "error_body (payload st) = Some b" and "err_status b = Some ''RESOURCE_EXHAUSTED''"
    and "\<not> key_dead (err_json b)"
    and "quota_exhausted (err_json b) (errorMessage_of b)"
    and "body_model (request st) = Some m" and "m \<noteq> []" and "familyToRemove m = Some fam"
    and "getKeyProvider svc_google_ai (pool st) = Some i"
    and "find_index (hash k) (keys (pool st ! i)) = Some j"
    and "modelFamilies k = modelFamilies (keys (pool st ! i) ! j)"
    and "overQuotaFamilies k = overQuotaFamilies (keys (pool st ! i) ! j)"
  shows "\<exists>st'. handleGoogleAIRateLimitError now st =
           (Some (RetryableError ''Quota-exhausted request re-enqueued with a different key.''), st')
         \<and> i < length (pool st) \<and> j < length (keys (pool st ! i))
         \<and> hash (keys (pool st ! i) ! j) = hash k
         \<and> pool st' = (pool st)[i := (pool st ! i)\<lparr>keys :=
              (keys (pool st ! i))[j := (keys (pool st ! i) ! j)
                 \<lparr>modelFamilies :=
                    filter (\<lambda>x. x \<noteq> fam) (modelFamilies (keys (pool st ! i) ! j)),
                  isOverQuota := True,
                  overQuotaFamilies :=
                    Some (with_overQuota (overQuotaFamilies (keys (pool st ! i) ! j)) fam)\<rparr>]\<rparr>]
         \<and> fam \<notin> set (modelFamilies (keys (pool st' ! i) ! j))
         \<and> (\<forall>f. f \<noteq> fam \<longrightarrow>
              (f \<in> set (modelFamilies (keys (pool st' ! i) ! j))
                 \<longleftrightarrow> f \<in> set (modelFamilies (keys (pool st ! i) ! j))))
         \<and> isOverQuota (keys (pool st' ! i) ! j)
         \<and> (\<exists>os. overQuotaFamilies (keys (pool st' ! i) ! j) = Some os \<and> fam \<in> set os
               \<and> set os = insert fam (case overQuotaFamilies (keys (pool st ! i) ! j) of
                                        None \<Rightarrow> {} | Some fs \<Rightarrow> set fs))
         \<and> isDisabled (keys (pool st' ! i) ! j) = isDisabled (keys (pool st ! i) ! j)
         \<and> isRevoked (keys (pool st' ! i) ! j) = isRevoked (keys (pool st ! i) ! j)
         \<and> reenqueued st' = reenqueued st @ [request st']
         \<and> request st' =
             (request st)\<lparr>req_key := Some (case overQuotaFamilies k of
                 None \<Rightarrow> k
               | Some _ \<Rightarrow> k\<lparr>overQuotaFamilies := Some (with_overQuota (overQuotaFamilies k) fam)\<rparr>)\<rparr>"
proof -
  let ?old = "keys (pool st ! i) ! j"
  let ?new = "?old\<lparr>modelFamilies := filter (\<lambda>x. x \<noteq> fam) (modelFamilies ?old),
                  isOverQuota := True,
                  overQuotaFamilies := Some (with_overQuota (overQuotaFamilies ?old) fam)\<rparr>"
  let ?pool = "(pool st)[i := (pool st ! i)\<lparr>keys := (keys (pool st ! i))[j := ?new]\<rparr>]"
  let ?k' = "case overQuotaFamilies k of None \<Rightarrow> k
               | Some _ \<Rightarrow> k\<lparr>overQuotaFamilies := Some (with_overQuota (overQuotaFamilies k) fam)\<rparr>"
  have s: "service ?k' = service k" "hash ?k' = hash k"
    by (simp_all split: option.splits)
  from assms(2) assms(10) have gp: "getKeyProvider (service k) (pool st) = Some i" by simp
  from getKeyProvider_Some [OF assms(10)] have i: "i < length (pool st)" by simp
  from find_index_Some [OF assms(11)]
  have j: "j < length (keys (pool st ! i))" and h: "hash ?old = hash k" by simp_all
  have run: "handleGoogleAIRateLimitError now st =
      (Some (RetryableError ''Quota-exhausted request re-enqueued with a different key.''),
       st\<lparr>payload := (payload st)\<lparr>proxy_note := Some (quota_note (Some fam))\<rparr>,
          request := (request st)\<lparr>req_key := Some ?k'\<rparr>,
          pool := ?pool,
          reenqueued := reenqueued st @ [(request st)\<lparr>req_key := Some ?k'\<rparr>]\<rparr>)"
  proof -
    have u: "KeyPool_update ?k'
        (no_patch\<lparr>set_modelFamilies := Some (filter (\<lambda>x. x \<noteq> fam) (modelFamilies k)),
                  set_isOverQuota := Some True,
                  set_overQuotaFamilies := Some (with_overQuota (overQuotaFamilies k) fam)\<rparr>)
        (pool st) = Inr ?pool"
      using KeyPool_update_found [OF gp assms(11) s, of
       "no_patch\<lparr>set_modelFamilies := Some (filter (\<lambda>x. x \<noteq> fam) (modelFamilies k)),
                  set_isOverQuota := Some True,
                  set_overQuotaFamilies := Some (with_overQuota (overQuotaFamilies k) fam)\<rparr>"]
        assms(12,13)
      by (simp add: assign_quota)
    show ?thesis
      using assms(1,3,4,5,6,7,8,9) u
      by (simp add: handleGoogleAIRateLimitError_def Let_def set_note_def reenqueueRequest_def)
  qed
  from i j have new: "keys (?pool ! i) ! j = ?new" by simp
  have w: "fam \<in> set (with_overQuota (overQuotaFamilies ?old) fam)"
    by (simp add: with_overQuota_def Let_def)
  have w2: "set (with_overQuota (overQuotaFamilies ?old) fam) =
      insert fam (case overQuotaFamilies ?old of None \<Rightarrow> {} | Some fs \<Rightarrow> set fs)"
    by (auto simp: with_overQuota_def Let_def split: option.splits)
  show ?thesis
    unfolding run
    using i j h new w w2 by simp
qed

theorem quota_exhausted_handled_witness:
  "\<exists>st'. handleGoogleAIRateLimitError 1000 (google_state quota_msg) =
           (Some (RetryableError ''Quota-exhausted request re-enqueued with a different key.''), st')
     \<and> pool (google_state quota_msg) =
         [\<lparr>provider_service = svc_google_ai, keys = [google_key]\<rparr>]
     \<and> req_key (request (google_state quota_msg)) = Some google_key
     \<and> modelFamilies google_key = [''gemini-pro'', ''gemini-flash'']
     \<and> pool st' = [\<lparr>provider_service = svc_google_ai,
                     keys = [google_key\<lparr>modelFamilies := [''gemini-flash''], isOverQuota := True,
                                        overQuotaFamilies := Some [''gemini-pro'']\<rparr>]\<rparr>]
     \<and> reenqueued st' = [request st']"
proof -
  have a: "req_key (request (google_state quota_msg)) = Some google_key"
    "service google_key = svc_google_ai"
    "error_body (payload (google_state quota_msg)) = Some (google_error quota_msg)"
    "err_status (google_error quota_msg) = Some ''RESOURCE_EXHAUSTED''"
    "body_model (request (google_state quota_msg)) = Some ''gemini-1.5-pro''"
    "''gemini-1.5-pro'' \<noteq> []"
    "familyToRemove ''gemini-1.5-pro'' = Some ''gemini-pro''"
    "getKeyProvider svc_google_ai (pool (google_state quota_msg)) = Some 0"
    "find_index (hash google_key) (keys (pool (google_state quota_msg) ! 0)) = Some 0"
    "modelFamilies google_key = modelFamilies (keys (pool (google_state quota_msg) ! 0) ! 0)"
    "overQuotaFamilies google_key =
       overQuotaFamilies (keys (pool (google_state quota_msg) ! 0) ! 0)"
    by (simp_all add: google_state_def google_key_def new_key_def google_error_def
        familyToRemove_def)
  from quota_exhausted_handled [OF a(1) a(2) a(3) a(4) not_key_dead_quota_msg
      quota_exhausted_quota_msg a(5) a(6) a(7) a(8) a(9) a(10) a(11), of 1000]
  obtain st' where
    h: "handleGoogleAIRateLimitError 1000 (google_state quota_msg) =
           (Some (RetryableError ''Quota-exhausted request re-enqueued with a different key.''), st')"
    and p: "pool st' = (pool (google_state quota_msg))[0 := (pool (google_state quota_msg) ! 0)\<lparr>keys :=
              (keys (pool (google_state quota_msg) ! 0))[0 := (keys (pool (google_state quota_msg) ! 0) ! 0)
                 \<lparr>modelFamilies := filter (\<lambda>x. x \<noteq> ''gemini-pro'')
                     (modelFamilies (keys (pool (google_state quota_msg) ! 0) ! 0)),
                  isOverQuota := True,
                  overQuotaFamilies := Some (with_overQuota
                     (overQuotaFamilies (keys (pool (google_state quota_msg) ! 0) ! 0))
                     ''gemini-pro'')\<rparr>]\<rparr>]"
    and r: "reenqueued st' = reenqueued (google_state quota_msg) @ [request st']"
    by blast
  from p have p': "pool st' = [\<lparr>provider_service = svc_google_ai,
                     keys = [google_key\<lparr>modelFamilies := [''gemini-flash''], isOverQuota := True,
                                        overQuotaFamilies := Some [''gemini-pro'']\<rparr>]\<rparr>]"
    by (simp add: google_state_def google_key_def new_key_def with_overQuota_def)
  from r have r': "reenqueued st' = [request st']"
    by (simp add: google_state_def)
  have q: "pool (google_state quota_msg) =
         [\<lparr>provider_service = svc_google_ai, keys = [google_key]\<rparr>]"
    "modelFamilies google_key = [''gemini-pro'', ''gemini-flash'']"
    by (simp_all add: google_state_def google_key_def)
  from h p' r' a(1) q show ?thesis by blast
qed

section \<open>Properties of the transformer of streamed events and of the info page\<close>

lemma createInitialMessage_deltas:
  "map delta (choices (createInitialMessage ev)) =
     replicate (length (choices ev)) \<lparr>role = Some ''assistant'', content = Some ''''\<rparr>"
  by (simp add: createInitialMessage_def comp_def map_replicate_const)

lemma SSE_transform_msgCount:
  "msgCount (transformer (SSE_transform transformFn t chunk)) = msgCount t + 1"
  by (simp add: SSE_transform_def Let_def split: sum.splits option.splits)

lemma SSE_transform_pushed_later:
  "0 < msgCount t \<Longrightarrow> length (pushed (SSE_transform transformFn t chunk)) \<le> 1"
  by (simp add: SSE_transform_def Let_def split: sum.splits option.splits)

lemma SSE_transform_pushed_first:
  "length (pushed (SSE_transform transformFn t chunk)) \<le> 2"
  by (simp add: SSE_transform_def Let_def split: sum.splits option.splits)

text \<open>After the first chunk, a stream pushes at most one event per chunk.\<close>

lemma SSE_run_pushed_later:
  "0 < msgCount t \<Longrightarrow> length (pushed (SSE_run transformFn t chunks)) \<le> length chunks"
proof (induction chunks arbitrary: t)
  case Nil
  show ?case by simp
next
  case (Cons c cs)
  have "0 < msgCount (transformer (SSE_transform transformFn t c))"
    by (simp add: SSE_transform_msgCount)
  from Cons.IH [OF this] SSE_transform_pushed_later [OF Cons.prems, of transformFn c]
  show ?case by (simp add: Let_def)
qed

lemma SSE_run_pushed:
  "length (pushed (SSE_run transformFn t chunks)) \<le> length chunks + 1"
proof (cases chunks)
  case Nil
  then show ?thesis by simp
next
  case (Cons c cs)
  have "0 < msgCount (transformer (SSE_transform transformFn t c))"
    by (simp add: SSE_transform_msgCount)
  from SSE_run_pushed_later [OF this, of transformFn cs]
    SSE_transform_pushed_first [of transformFn t c] Cons
  show ?thesis by (simp add: Let_def)
qed

text \<open>
  C6, as the claim states it, fails: the transformer does not ask whether the upstream
  dialect emits the initial event itself. With an upstream that speaks the OpenAI
  dialect and whose first event is that event (role "assistant", empty content),
  handed through as it is, the client gets the synthesized initial chunk and then the
  upstream's own, which is the same event.
\<close>

theorem openai_upstream_counterexample:
  "pushed (SSE_transform (hand_through role_event) (fresh_transformer api_openai) ''data: {}'')
     = [createInitialMessage role_event, role_event]
   \<and> createInitialMessage role_event = role_event
   \<and> map delta (choices role_event) = [\<lparr>role = Some ''assistant'', content = Some ''''\<rparr>]"
  by (simp add: SSE_transform_def hand_through_def fresh_transformer_def role_event_def
      eventIsOpenAIEvent_def createInitialMessage_def Let_def)

text \<open>
  C6, amended: whatever the upstream dialect, the transformer synthesizes the initial
  chunk (the first transformed event with every choice's delta replaced by
  \<^verbatim>\<open>{role: "assistant", content: ""}\<close>) and pushes it right before that event exactly
  when the first chunk of the stream is not dropped and is transformed into an event
  whose \<^verbatim>\<open>object\<close> is \<^verbatim>\<open>"chat.completion.chunk"\<close>; no later chunk gets one. The
  first chunk is dropped, with no output and no \<^verbatim>\<open>originalMessage\<close> event, when the
  upstream format is \<^verbatim>\<open>openai\<close> and the chunk contains
  \<^verbatim>\<open>prompt_filter_results\<close>. This is for a chunk on which the transformer function
  does not throw.
\<close>

theorem first_message_rule:
  assumes "transformFn \<lparr> arg_data = chunk, arg_lastPosition = lastPosition t,
                          arg_index = msgCount t, arg_fallbackId = fallbackId t,
                          arg_fallbackModel = fallbackModel t,
                          arg_state = transformState t \<rparr> = Inr r"
  shows "pushed (SSE_transform transformFn t chunk) =
           (if msgCount t = 0 \<and> inputFormat t = api_openai \<and>
               includes_str chunk ''prompt_filter_results'' then []
            else case res_event r of
                   None \<Rightarrow> []
                 | Some ev \<Rightarrow>
                     if msgCount t = 0 \<and> event_object ev = Some ''chat.completion.chunk''
                     then [createInitialMessage ev, ev] else [ev])
         \<and> emitted (SSE_transform transformFn t chunk) =
           (if msgCount t = 0 \<and> inputFormat t = api_openai \<and>
               includes_str chunk ''prompt_filter_results'' then [] else [chunk])
         \<and> callback_error (SSE_transform transformFn t chunk) = None
         \<and> msgCount (transformer (SSE_transform transformFn t chunk)) = msgCount t + 1
         \<and> (\<forall>ev. map delta (choices (createInitialMessage ev)) =
                   replicate (length (choices ev)) \<lparr>role = Some ''assistant'', content = Some ''''\<rparr>)"
  using assms createInitialMessage_deltas
  by (auto simp: SSE_transform_def Let_def eventIsOpenAIEvent_def split: option.splits)

theorem first_message_rule_witness:
  "pushed (SSE_transform (hand_through (role_event\<lparr>event_id := ''msg_1''\<rparr>))
             (fresh_transformer api_anthropic_chat) ''event: content_block_delta'')
     = [createInitialMessage (role_event\<lparr>event_id := ''msg_1''\<rparr>), role_event\<lparr>event_id := ''msg_1''\<rparr>]
   \<and> pushed (SSE_transform (hand_through role_event)
             (fresh_transformer api_openai) ''data: {prompt_filter_results}'') = []
   \<and> emitted (SSE_transform (hand_through role_event)
             (fresh_transformer api_openai) ''data: {prompt_filter_results}'') = []"
proof -
  have a: "hand_through (role_event\<lparr>event_id := ''msg_1''\<rparr>)
      \<lparr> arg_data = ''event: content_block_delta'',
        arg_lastPosition = lastPosition (fresh_transformer api_anthropic_chat),
        arg_index = msgCount (fresh_transformer api_anthropic_chat),
        arg_fallbackId = fallbackId (fresh_transformer api_anthropic_chat),
        arg_fallbackModel = fallbackModel (fresh_transformer api_anthropic_chat),
        arg_state = transformState (fresh_transformer api_anthropic_chat) \<rparr>
      = Inr \<lparr> res_event = Some (role_event\<lparr>event_id := ''msg_1''\<rparr>), res_position = 0, res_state = () \<rparr>"
    by (simp add: hand_through_def fresh_transformer_def)
  have b: "hand_through role_event
      \<lparr> arg_data = ''data: {prompt_filter_results}'',
        arg_lastPosition = lastPosition (fresh_transformer api_openai),
        arg_index = msgCount (fresh_transformer api_openai),
        arg_fallbackId = fallbackId (fresh_transformer api_openai),
        arg_fallbackModel = fallbackModel (fresh_transformer api_openai),
        arg_state = transformState (fresh_transformer api_openai) \<rparr>
      = Inr \<lparr> res_event = Some role_event, res_position = 0, res_state = () \<rparr>"
    by (simp add: hand_through_def fresh_transformer_def)
  have c: "includes_str ''data: {prompt_filter_results}'' ''prompt_filter_results''"
    by simp
  from first_message_rule [where transformFn = "hand_through (role_event\<lparr>event_id := ''msg_1''\<rparr>)"
        and t = "fresh_transformer api_anthropic_chat" and chunk = "''event: content_block_delta''",
        OF a]
    first_message_rule [where transformFn = "hand_through role_event"
        and t = "fresh_transformer api_openai" and chunk = "''data: {prompt_filter_results}''",
        OF b] c
  show ?thesis
    by (simp add: fresh_transformer_def role_event_def)
qed

lemma buildInfo_cacheTime: "cacheTime (snd (buildInfo now fresh c)) = cacheTime c"
  by (simp add: buildInfo_def)

text \<open>With the cache time still 0, every call from time 2000 on computes the document.\<close>

lemma buildInfo_recomputes:
  "cacheTime c = 0 \<Longrightarrow> CACHE_TTL \<le> now \<Longrightarrow>
   buildInfo now fresh c = (Some fresh, c\<lparr>cachedInfo := Some fresh\<rparr>)"
  by (simp add: buildInfo_def)

text \<open>
  C10: the code does not cache. A first call at time 1700000000000 computes
  \<open>doc-1\<close> and stores it, but leaves \<^verbatim>\<open>cacheTime\<close> at 0; the second call, 500 ms
  later, finds \<^verbatim>\<open>cacheTime + CACHE_TTL\<close> = 2000 below the clock and computes
  \<open>doc-2\<close>, where the claim has the result of the first call returned.
\<close>

theorem buildInfo_second_call_recomputes:
  "buildInfo 1700000000000 ''doc-1'' initial_cache =
     (Some ''doc-1'', \<lparr>cachedInfo = Some ''doc-1'', cacheTime = 0\<rparr>)
   \<and> buildInfo 1700000000500 ''doc-2'' \<lparr>cachedInfo = Some ''doc-1'', cacheTime = 0\<rparr> =
     (Some ''doc-2'', \<lparr>cachedInfo = Some ''doc-2'', cacheTime = 0\<rparr>)
   \<and> (1700000000500::int) < 1700000000000 + CACHE_TTL"
  by (simp add: buildInfo_def initial_cache_def CACHE_TTL_def)


end
